theory Spec2Isabelle
  imports Complex_Main "HOL-Library.Sublist"
begin

section \<open>Data model (watcher\_models.py)\<close>

text \<open>
  Python exceptions are values. Only the classes that the watcher's handlers tell apart
  are kept: \<open>OSError\<close> (it is what \<open>except (OSError, IOError)\<close> catches), and the others,
  which only \<open>except Exception\<close> and the bare \<open>except\<close> catch. Each carries \<open>str(e)\<close>.
\<close>

datatype py_exception =
    OSError string
  | ValueError string
  | OverflowError string
  | AttributeError string
  | TypeError string

fun str :: "py_exception \<Rightarrow> string" where
  "str (OSError m) = m"
| "str (ValueError m) = m"
| "str (OverflowError m) = m"
| "str (AttributeError m) = m"
| "str (TypeError m) = m"

fun is_OSError :: "py_exception \<Rightarrow> bool" where
  "is_OSError (OSError m) = True"
| "is_OSError e = False"

datatype RecoveryAction =
    RETRY_IMMEDIATE
  | RETRY_WITH_BACKOFF
  | RESTART_COMPONENT
  | CIRCUIT_BREAKER
  | FATAL_EXIT

text \<open>Wall-clock times (\<open>time.time()\<close>) are read as real numbers.\<close>

record ErrorContext =
  error_type :: string
  component :: string
  attempt_count :: int
  last_attempt_time :: real
  error_message :: string
  stack_trace :: "string option"

record CircuitBreakerState =
  is_open :: bool
  failure_count :: int
  last_failure_time :: real
  last_success_time :: real
  next_attempt_time :: real

text \<open>
  The Python values that a collaborator may put into \<open>error_rate_window\<close>, declared
  \<open>List[Dict[str, Any]]\<close>: \<open>None\<close>, booleans, integers, floats (finite ones, read as
  real numbers), strings, lists, tuples, dictionaries, and objects of any other class,
  kept by the name of their class (a \<open>set\<close>, a \<open>datetime\<close>). A dictionary is the list of
  its items in insertion order. Its keys are strings, integers, booleans, \<open>None\<close>, or
  hashable objects of another class that \<open>json\<close> refuses as a key (a \<open>tuple\<close>), kept by
  the name of the class; dictionaries with float keys are not part of this universe.
\<close>

datatype pykey = KStr string | KInt int | KBool bool | KNone | KOther string

datatype pyval =
    PNone
  | PBool bool
  | PInt int
  | PFloat real
  | PStr string
  | PList "pyval list"
  | PTuple "pyval list"
  | PDict "(pykey \<times> pyval) list"
  | PObject string

text \<open>
  \<open>WatcherState\<close>. The fields hold values of their declared types; the entries of
  \<open>error_rate_window\<close> belong to a collaborator and may be any Python value.
\<close>

record WatcherState =
  current_pool :: "string option"
  last_alert_times :: "string \<rightharpoonup> real"
  error_rate_window :: "pyval list"
  file_position :: int
  file_inode :: "int option"
  circuit_breaker_states :: "string \<rightharpoonup> CircuitBreakerState"
  last_health_check :: real
  startup_time :: real

text \<open>
  Keyword arguments of the two dataclass constructors, as \<open>CircuitBreakerState\<close> and
  \<open>WatcherState\<close> receive them from a dictionary: a key may be absent (\<open>None\<close>), and then the
  dataclass default applies. For the fields whose default is Python's \<open>None\<close>
  (\<open>current_pool\<close>, \<open>last_alert_times\<close>, \<open>error_rate_window\<close>, \<open>file_inode\<close>) an
  explicit null and an absent key are the same \<open>None\<close>.
\<close>

record cb_kwargs =
  k_is_open :: "bool option"
  k_failure_count :: "int option"
  k_last_failure_time :: "real option"
  k_last_success_time :: "real option"
  k_next_attempt_time :: "real option"

record ('w, 'cb) state_kwargs =
  k_current_pool :: "string option"
  k_last_alert_times :: "(string \<rightharpoonup> real) option"
  k_error_rate_window :: "'w list option"
  k_file_position :: "int option"
  k_file_inode :: "int option"
  k_circuit_breaker_states :: "(string \<rightharpoonup> 'cb) option"
  k_last_health_check :: "real option"
  k_startup_time :: "real option"

definition CircuitBreakerState_new :: "cb_kwargs \<Rightarrow> CircuitBreakerState" where
  "CircuitBreakerState_new k =
     \<lparr> is_open = (case k_is_open k of None \<Rightarrow> False | Some b \<Rightarrow> b),
       failure_count = (case k_failure_count k of None \<Rightarrow> 0 | Some n \<Rightarrow> n),
       last_failure_time = (case k_last_failure_time k of None \<Rightarrow> 0 | Some t \<Rightarrow> t),
       last_success_time = (case k_last_success_time k of None \<Rightarrow> 0 | Some t \<Rightarrow> t),
       next_attempt_time = (case k_next_attempt_time k of None \<Rightarrow> 0 | Some t \<Rightarrow> t) \<rparr>"

definition no_cb_kwargs :: cb_kwargs where
  "no_cb_kwargs =
     \<lparr> k_is_open = None, k_failure_count = None, k_last_failure_time = None,
       k_last_success_time = None, k_next_attempt_time = None \<rparr>"

text \<open>
  The constructor \<open>WatcherState\<close> followed by \<open>__post_init__\<close>: the three containers default to
  empty ones, and a start-up time of 0 is replaced by the clock (\<open>now\<close>).
\<close>

definition WatcherState_new ::
  "real \<Rightarrow> (pyval, CircuitBreakerState) state_kwargs \<Rightarrow> WatcherState" where
  "WatcherState_new now k =
     (let t = (case k_startup_time k of None \<Rightarrow> 0 | Some t \<Rightarrow> t) in
      \<lparr> current_pool = k_current_pool k,
        last_alert_times = (case k_last_alert_times k of None \<Rightarrow> Map.empty | Some m \<Rightarrow> m),
        error_rate_window = (case k_error_rate_window k of None \<Rightarrow> [] | Some w \<Rightarrow> w),
        file_position = (case k_file_position k of None \<Rightarrow> 0 | Some p \<Rightarrow> p),
        file_inode = k_file_inode k,
        circuit_breaker_states =
          (case k_circuit_breaker_states k of None \<Rightarrow> Map.empty | Some m \<Rightarrow> m),
        last_health_check = (case k_last_health_check k of None \<Rightarrow> 0 | Some t \<Rightarrow> t),
        startup_time = (if t = 0 then now else t) \<rparr>)"

definition no_state_kwargs :: "('w, 'cb) state_kwargs" where
  "no_state_kwargs =
     \<lparr> k_current_pool = None, k_last_alert_times = None, k_error_rate_window = None,
       k_file_position = None, k_file_inode = None, k_circuit_breaker_states = None,
       k_last_health_check = None, k_startup_time = None \<rparr>"

text \<open>
  \<open>dataclasses.asdict\<close> on a breaker and on the whole state: every key is present, and
  the values that are not dataclasses are copied as they are.
\<close>

definition asdict_cb :: "CircuitBreakerState \<Rightarrow> cb_kwargs" where
  "asdict_cb cb =
     \<lparr> k_is_open = Some (is_open cb), k_failure_count = Some (failure_count cb),
       k_last_failure_time = Some (last_failure_time cb),
       k_last_success_time = Some (last_success_time cb),
       k_next_attempt_time = Some (next_attempt_time cb) \<rparr>"

definition asdict :: "WatcherState \<Rightarrow> (pyval, cb_kwargs) state_kwargs" where
  "asdict s =
     \<lparr> k_current_pool = current_pool s,
       k_last_alert_times = Some (last_alert_times s),
       k_error_rate_window = Some (error_rate_window s),
       k_file_position = Some (file_position s),
       k_file_inode = file_inode s,
       k_circuit_breaker_states =
         Some (\<lambda>name. map_option asdict_cb (circuit_breaker_states s name)),
       k_last_health_check = Some (last_health_check s),
       k_startup_time = Some (startup_time s) \<rparr>"

section \<open>JSON (the \<open>json\<close> module as \<open>save_state\<close> and \<open>load_state\<close> use it)\<close>

text \<open>
  A JSON value as \<open>json.load\<close> reads it: an object is the list of its members in the
  order of the text, a name possibly more than once.
\<close>

datatype json =
    JNull
  | JBool bool
  | JInt int
  | JFloat real
  | JStr string
  | JArray "json list"
  | JObject "(string \<times> json) list"

text \<open>The decimal numeral that \<open>json\<close> writes for an integer key.\<close>

fun nat_repr :: "nat \<Rightarrow> string" where
  "nat_repr n =
     (if n < 10 then [''0123456789'' ! n]
      else nat_repr (n div 10) @ [''0123456789'' ! (n mod 10)])"

declare nat_repr.simps [simp del]

definition int_repr :: "int \<Rightarrow> string" where
  "int_repr i = (if i < 0 then CHR ''-'' # nat_repr (nat (- i)) else nat_repr (nat i))"

text \<open>
  \<open>json.dump\<close> as \<open>save_state\<close> calls it (\<open>indent=2\<close> is layout only, the other
  options are the default ones). Lists and tuples are both written as arrays.
  The key of a dictionary is written as a string: a string as it is, an integer as its
  numeral, \<open>True\<close>, \<open>False\<close> and \<open>None\<close> as \<open>true\<close>, \<open>false\<close> and \<open>null\<close>; any other
  key raises \<open>TypeError\<close>, as does an object of a class the encoder does not know. The
  items are written in order, the key of an item before its value, and the first
  exception ends the call.
\<close>

fun key_string :: "pykey \<Rightarrow> py_exception + string" where
  "key_string (KStr s) = Inr s"
| "key_string (KInt i) = Inr (int_repr i)"
| "key_string (KBool b) = Inr (if b then ''true'' else ''false'')"
| "key_string KNone = Inr ''null''"
| "key_string (KOther t) =
     Inl (TypeError (''keys must be str, int, float, bool or None, not '' @ t))"

fun sequence :: "('e + 'a) list \<Rightarrow> 'e + 'a list" where
  "sequence [] = Inr []"
| "sequence (x # xs) =
     (case x of
        Inl e \<Rightarrow> Inl e
      | Inr y \<Rightarrow> (case sequence xs of Inl e \<Rightarrow> Inl e | Inr ys \<Rightarrow> Inr (y # ys)))"

definition dump_item ::
  "pykey \<times> (py_exception + json) \<Rightarrow> py_exception + (string \<times> json)" where
  "dump_item kv =
     (case key_string (fst kv) of
        Inl e \<Rightarrow> Inl e
      | Inr s \<Rightarrow> (case snd kv of Inl e \<Rightarrow> Inl e | Inr j \<Rightarrow> Inr (s, j)))"

primrec json_dump :: "pyval \<Rightarrow> py_exception + json" where
  "json_dump PNone = Inr JNull"
| "json_dump (PBool b) = Inr (JBool b)"
| "json_dump (PInt i) = Inr (JInt i)"
| "json_dump (PFloat x) = Inr (JFloat x)"
| "json_dump (PStr s) = Inr (JStr s)"
| "json_dump (PList xs) = map_sum id JArray (sequence (map json_dump xs))"
| "json_dump (PTuple xs) = map_sum id JArray (sequence (map json_dump xs))"
| "json_dump (PDict kvs) =
     map_sum id JObject (sequence (map dump_item (map (map_prod id json_dump) kvs)))"
| "json_dump (PObject t) =
     Inl (TypeError (''Object of type '' @ t @ '' is not JSON serializable''))"

text \<open>
  \<open>json.load\<close>: an array becomes a list, an object a dictionary with string keys. The
  dictionary is filled member by member (\<open>d[k] = v\<close>): a name that comes again keeps its
  place and takes the later value.
\<close>

fun dict_set :: "('k \<times> 'v) list \<Rightarrow> 'k \<Rightarrow> 'v \<Rightarrow> ('k \<times> 'v) list" where
  "dict_set [] k v = [(k, v)]"
| "dict_set ((k', v') # d) k v =
     (if k' = k then (k', v) # d else (k', v') # dict_set d k v)"

definition dict_of :: "('k \<times> 'v) list \<Rightarrow> ('k \<times> 'v) list" where
  "dict_of kvs = foldl (\<lambda>d kv. dict_set d (fst kv) (snd kv)) [] kvs"

primrec json_load :: "json \<Rightarrow> pyval" where
  "json_load JNull = PNone"
| "json_load (JBool b) = PBool b"
| "json_load (JInt i) = PInt i"
| "json_load (JFloat x) = PFloat x"
| "json_load (JStr s) = PStr s"
| "json_load (JArray xs) = PList (map json_load xs)"
| "json_load (JObject kvs) = PDict (dict_of (map (map_prod KStr json_load) kvs))"

text \<open>
  The values that JSON has a form of its own for: no tuple, no object of another class,
  and in a dictionary string keys only (distinct ones, as the keys of a Python dictionary
  are).
\<close>

fun is_KStr :: "pykey \<Rightarrow> bool" where
  "is_KStr (KStr s) = True"
| "is_KStr k = False"

primrec json_native :: "pyval \<Rightarrow> bool" where
  "json_native PNone = True"
| "json_native (PBool b) = True"
| "json_native (PInt i) = True"
| "json_native (PFloat x) = True"
| "json_native (PStr s) = True"
| "json_native (PList xs) = list_all id (map json_native xs)"
| "json_native (PTuple xs) = False"
| "json_native (PDict kvs) =
     (list_all (\<lambda>kv. is_KStr (fst kv) \<and> snd kv) (map (map_prod id json_native) kvs) \<and>
      distinct (map fst kvs))"
| "json_native (PObject t) = False"

text \<open>
  The state document. \<open>json.dump\<close> of the dictionary that \<open>save_state\<close> builds, and
  \<open>json.load\<close> of a state file: the fields of declared type are written and read as they
  are, the entries of the window go through \<open>json_dump\<close> and \<open>json_load\<close>.
\<close>

definition with_window ::
  "('a, 'cb) state_kwargs \<Rightarrow> 'b list option \<Rightarrow> ('b, 'cb) state_kwargs" where
  "with_window d w =
     \<lparr> k_current_pool = k_current_pool d,
       k_last_alert_times = k_last_alert_times d,
       k_error_rate_window = w,
       k_file_position = k_file_position d,
       k_file_inode = k_file_inode d,
       k_circuit_breaker_states = k_circuit_breaker_states d,
       k_last_health_check = k_last_health_check d,
       k_startup_time = k_startup_time d \<rparr>"

definition json_dump_doc ::
  "(pyval, 'cb) state_kwargs \<Rightarrow> py_exception + (json, 'cb) state_kwargs" where
  "json_dump_doc d =
     (case k_error_rate_window d of
        None \<Rightarrow> Inr (with_window d None)
      | Some w \<Rightarrow>
          (case sequence (map json_dump w) of
             Inl e \<Rightarrow> Inl e
           | Inr js \<Rightarrow> Inr (with_window d (Some js))))"

definition json_load_doc :: "(json, 'cb) state_kwargs \<Rightarrow> (pyval, 'cb) state_kwargs" where
  "json_load_doc d = with_window d (map_option (map json_load) (k_error_rate_window d))"

section \<open>The state files\<close>

text \<open>
  What a state file holds: bytes that are not text in the encoding of \<open>open\<close>
  (\<open>Undecodable\<close>); text on which \<open>json.load\<close> or a constructor raises (\<open>Garbage\<close>: no
  JSON, not an object, an unknown key; the empty file is \<open>Garbage []\<close>); the beginning of
  a document, cut off where \<open>json.dump\<close> raised (\<open>Truncated\<close>); or a JSON object whose
  keys are field names and whose values have the declared types (\<open>Doc\<close>). A file with
  a value of another type than the field's is outside this model: Python would accept it
  and hold an ill-typed state.

  A path can be denied for reading or for writing; then \<open>open\<close> raises.
\<close>

datatype file_content =
    Undecodable
  | Garbage string
  | Truncated
  | Doc "(json, cb_kwargs) state_kwargs"

record filesystem =
  files :: "string \<rightharpoonup> file_content"
  read_denied :: "string set"
  write_denied :: "string set"

definition path_exists :: "filesystem \<Rightarrow> string \<Rightarrow> bool" where
  "path_exists fs p = (files fs p \<noteq> None)"

text \<open>\<open>open(p, 'r')\<close>: the content that the handle will read.\<close>

definition open_read :: "filesystem \<Rightarrow> string \<Rightarrow> py_exception + file_content" where
  "open_read fs p =
     (case files fs p of
        None \<Rightarrow> Inl (OSError ''No such file or directory'')
      | Some c \<Rightarrow> if p \<in> read_denied fs then Inl (OSError ''Permission denied'') else Inr c)"

text \<open>
  \<open>f.read()\<close> on a text handle: the bytes are decoded (\<open>UnicodeDecodeError\<close> is a
  \<open>ValueError\<close>) and every line end, \<open>\r\n\<close> or \<open>\r\<close>, is read as \<open>\n\<close>, which is what
  a text handle on a POSIX system writes back. Between the tokens of a document a line
  end is white space, so the document read is the same.
\<close>

fun universal_newlines :: "string \<Rightarrow> string" where
  "universal_newlines [] = []"
| "universal_newlines [c] = [if c = CHR 0x0D then CHR 0x0A else c]"
| "universal_newlines (c # d # cs) =
     (if c = CHR 0x0D \<and> d = CHR 0x0A then CHR 0x0A # universal_newlines cs
      else if c = CHR 0x0D then CHR 0x0A # universal_newlines (d # cs)
      else c # universal_newlines (d # cs))"

fun read_text :: "file_content \<Rightarrow> py_exception + file_content" where
  "read_text Undecodable = Inl (ValueError ''invalid start byte'')"
| "read_text (Garbage b) = Inr (Garbage (universal_newlines b))"
| "read_text Truncated = Inr Truncated"
| "read_text (Doc d) = Inr (Doc d)"

text \<open>
  \<open>open(p, 'w')\<close> creates the file or empties it; \<open>put_file\<close> is the content once the
  handle has been written and closed.
\<close>

definition put_file :: "filesystem \<Rightarrow> string \<Rightarrow> file_content \<Rightarrow> filesystem" where
  "put_file fs p c = fs\<lparr>files := (files fs)(p \<mapsto> c)\<rparr>"

definition open_write :: "filesystem \<Rightarrow> string \<Rightarrow> py_exception + filesystem" where
  "open_write fs p =
     (if p \<in> write_denied fs then Inl (OSError ''Permission denied'')
      else Inr (put_file fs p (Garbage [])))"

definition rename_file ::
  "filesystem \<Rightarrow> string \<Rightarrow> string \<Rightarrow> py_exception + filesystem" where
  "rename_file fs src dst =
     (case files fs src of
        None \<Rightarrow> Inl (OSError ''No such file or directory'')
      | Some c \<Rightarrow>
          if dst \<in> write_denied fs then Inl (OSError ''Permission denied'')
          else Inr (fs\<lparr>files := ((files fs)(src := None))(dst \<mapsto> c)\<rparr>))"

text \<open>
  \<open>json.load(f)\<close> and the two constructors on what a file holds: the document, or the
  exception that the \<open>try\<close> block of \<open>load_state\<close> catches (shown as the decoder's).
\<close>

fun json_load_file :: "file_content \<Rightarrow> py_exception + (json, cb_kwargs) state_kwargs" where
  "json_load_file Undecodable = Inl (ValueError ''invalid start byte'')"
| "json_load_file (Garbage b) = Inl (ValueError ''Expecting value'')"
| "json_load_file Truncated = Inl (ValueError ''Expecting value'')"
| "json_load_file (Doc d) = Inr d"

section \<open>StateManager (watcher\_models.py)\<close>

text \<open>
  \<open>backup_path\<close> is set to \<open>f"{state_path}.backup"\<close> by \<open>__init__\<close> and never assigned
  again: it is read off \<open>state_path\<close>.
\<close>

record StateManager =
  state_path :: string
  state :: WatcherState

definition backup_path :: "StateManager \<Rightarrow> string" where
  "backup_path sm = state_path sm @ ''.backup''"

definition temp_path :: "StateManager \<Rightarrow> string" where
  "temp_path sm = state_path sm @ ''.tmp''"

text \<open>
  The first step of \<open>save_state\<close>, when the primary file exists: both files are opened,
  the primary for reading and the backup for writing, which empties it; then the primary
  is read as text and written to the backup. The result is the exception, if one was
  raised, and the files as they are then.
\<close>

definition copy_to_backup :: "StateManager \<Rightarrow> filesystem \<Rightarrow> py_exception option \<times> filesystem" where
  "copy_to_backup sm fs =
     (case open_read fs (state_path sm) of
        Inl e \<Rightarrow> (Some e, fs)
      | Inr c \<Rightarrow>
          (case open_write fs (backup_path sm) of
             Inl e \<Rightarrow> (Some e, fs)
           | Inr fs1 \<Rightarrow>
               (case read_text c of
                  Inl e \<Rightarrow> (Some e, fs1)
                | Inr text \<Rightarrow> (None, put_file fs1 (backup_path sm) text))))"

text \<open>
  \<open>save_state\<close>: copy the primary file to the backup when it exists, build the
  dictionary, open the temporary file, \<open>json.dump\<close> into it, rename it over the primary.
  Any exception ends the call with \<open>False\<close>; what was written before it stays written.
  \<open>json.dump\<close> writes piece by piece, so when it raises the temporary file is left cut
  off.
\<close>

definition save_state :: "StateManager \<Rightarrow> filesystem \<Rightarrow> bool \<times> filesystem" where
  "save_state sm fs =
     (case (if path_exists fs (state_path sm) then copy_to_backup sm fs else (None, fs)) of
        (Some e, fs1) \<Rightarrow> (False, fs1)
      | (None, fs1) \<Rightarrow>
          (let state_dict = asdict (state sm) in
           case open_write fs1 (temp_path sm) of
             Inl e \<Rightarrow> (False, fs1)
           | Inr fs2 \<Rightarrow>
               (case json_dump_doc state_dict of
                  Inl e \<Rightarrow> (False, put_file fs2 (temp_path sm) Truncated)
                | Inr doc \<Rightarrow>
                    (let fs3 = put_file fs2 (temp_path sm) (Doc doc) in
                     case rename_file fs3 (temp_path sm) (state_path sm) of
                       Inl e \<Rightarrow> (False, fs3)
                     | Inr fs4 \<Rightarrow> (True, fs4)))))"

text \<open>
  The body of the \<open>for path in [...]\<close> loop of \<open>load_state\<close>: \<open>None\<close> when the path does
  not exist (\<open>continue\<close>), \<open>Some (Inl e)\<close> when the \<open>try\<close> block raised \<open>e\<close> (caught,
  \<open>continue\<close>), \<open>Some (Inr s)\<close> when the file gave the state \<open>s\<close>.
\<close>

definition convert_cb_states ::
  "('w, cb_kwargs) state_kwargs \<Rightarrow> ('w, CircuitBreakerState) state_kwargs" where
  "convert_cb_states d =
     \<lparr> k_current_pool = k_current_pool d,
       k_last_alert_times = k_last_alert_times d,
       k_error_rate_window = k_error_rate_window d,
       k_file_position = k_file_position d,
       k_file_inode = k_file_inode d,
       k_circuit_breaker_states =
         Some (case k_circuit_breaker_states d of
                 None \<Rightarrow> Map.empty
               | Some m \<Rightarrow> (\<lambda>name. map_option CircuitBreakerState_new (m name))),
       k_last_health_check = k_last_health_check d,
       k_startup_time = k_startup_time d \<rparr>"

definition load_from ::
  "real \<Rightarrow> filesystem \<Rightarrow> string \<Rightarrow> (py_exception + WatcherState) option" where
  "load_from now fs p =
     (if \<not> path_exists fs p then None
      else (case open_read fs p of
              Inl e \<Rightarrow> Some (Inl e)
            | Inr c \<Rightarrow>
                (case json_load_file c of
                   Inl e \<Rightarrow> Some (Inl e)
                 | Inr d \<Rightarrow>
                     Some (Inr (WatcherState_new now (convert_cb_states (json_load_doc d)))))))"

fun load_paths ::
  "real \<Rightarrow> filesystem \<Rightarrow> StateManager \<Rightarrow> string list \<Rightarrow> bool \<times> StateManager" where
  "load_paths now fs sm [] = (False, sm)"
| "load_paths now fs sm (p # ps) =
     (case load_from now fs p of
        Some (Inr s) \<Rightarrow> (True, sm\<lparr>state := s\<rparr>)
      | _ \<Rightarrow> load_paths now fs sm ps)"

definition load_state ::
  "real \<Rightarrow> StateManager \<Rightarrow> filesystem \<Rightarrow> bool \<times> StateManager" where
  "load_state now sm fs = load_paths now fs sm [state_path sm, backup_path sm]"

text \<open>
  \<open>StateManager.__init__\<close>: a default \<open>WatcherState()\<close> (built at time \<open>t0\<close>), then
  \<open>load_state()\<close> (at time \<open>t1\<close>), whose result is dropped. It is the only call of
  \<open>load_state\<close> in the program.
\<close>

definition StateManager_init :: "string \<Rightarrow> real \<Rightarrow> StateManager" where
  "StateManager_init path t0 =
     \<lparr> state_path = path, state = WatcherState_new t0 no_state_kwargs \<rparr>"

definition StateManager_new ::
  "string \<Rightarrow> real \<Rightarrow> real \<Rightarrow> filesystem \<Rightarrow> StateManager" where
  "StateManager_new path t0 t1 fs = snd (load_state t1 (StateManager_init path t0) fs)"

text \<open>
  The document a path holds for \<open>load_state\<close>: none when the file is missing, cannot be
  read, or is no document. \<open>from_doc\<close> is the state that \<open>json.load\<close> and the two
  constructors build from it.
\<close>

definition stored_doc :: "filesystem \<Rightarrow> string \<Rightarrow> (json, cb_kwargs) state_kwargs option" where
  "stored_doc fs p =
     (case files fs p of
        Some (Doc d) \<Rightarrow> if p \<in> read_denied fs then None else Some d
      | _ \<Rightarrow> None)"

definition from_doc :: "real \<Rightarrow> (json, cb_kwargs) state_kwargs \<Rightarrow> WatcherState" where
  "from_doc now d = WatcherState_new now (convert_cb_states (json_load_doc d))"

text \<open>
  \<open>load()\<close> in the words of claim C7, for the manager that the constructor has just
  built with the default state of time \<open>t0\<close>: the primary path, then the backup path; the
  first that holds a usable document gives the state; with neither, the state is a fresh
  default state and the result is \<open>False\<close>.
\<close>

definition load_spec ::
  "real \<Rightarrow> real \<Rightarrow> StateManager \<Rightarrow> filesystem \<Rightarrow> bool \<times> StateManager" where
  "load_spec t0 now sm fs =
     (case stored_doc fs (state_path sm) of
        Some d \<Rightarrow> (True, sm\<lparr>state := from_doc now d\<rparr>)
      | None \<Rightarrow>
          (case stored_doc fs (backup_path sm) of
             Some d \<Rightarrow> (True, sm\<lparr>state := from_doc now d\<rparr>)
           | None \<Rightarrow> (False, sm\<lparr>state := WatcherState_new t0 no_state_kwargs\<rparr>)))"

definition update_file_position ::
  "StateManager \<Rightarrow> int \<Rightarrow> int option \<Rightarrow> StateManager" where
  "update_file_position sm position inode =
     (let s1 = (state sm)\<lparr>file_position := position\<rparr>;
          s2 = (case inode of None \<Rightarrow> s1 | Some i \<Rightarrow> s1\<lparr>file_inode := Some i\<rparr>)
      in sm\<lparr>state := s2\<rparr>)"

definition default_cb :: CircuitBreakerState where
  "default_cb = CircuitBreakerState_new no_cb_kwargs"

definition get_circuit_breaker ::
  "StateManager \<Rightarrow> string \<Rightarrow> CircuitBreakerState \<times> StateManager" where
  "get_circuit_breaker sm c =
     (case circuit_breaker_states (state sm) c of
        Some cb \<Rightarrow> (cb, sm)
      | None \<Rightarrow>
          (default_cb,
           sm\<lparr>state := (state sm)\<lparr>circuit_breaker_states :=
                  (circuit_breaker_states (state sm))(c \<mapsto> default_cb)\<rparr>\<rparr>))"

definition set_cb :: "StateManager \<Rightarrow> string \<Rightarrow> CircuitBreakerState \<Rightarrow> StateManager" where
  "set_cb sm c cb =
     sm\<lparr>state := (state sm)\<lparr>circuit_breaker_states :=
            (circuit_breaker_states (state sm))(c \<mapsto> cb)\<rparr>\<rparr>"

definition update_circuit_breaker ::
  "StateManager \<Rightarrow> filesystem \<Rightarrow> string \<Rightarrow> CircuitBreakerState
     \<Rightarrow> StateManager \<times> filesystem" where
  "update_circuit_breaker sm fs c cb =
     (let sm1 = set_cb sm c cb in (sm1, snd (save_state sm1 fs)))"

section \<open>ErrorHandler (error\_handler.py)\<close>

record ErrorHandler =
  state_manager :: "StateManager"
  error_contexts :: "string \<rightharpoonup> ErrorContext"

text \<open>The settings that \<open>__init__\<close> fixes.\<close>

definition max_retries :: "string \<rightharpoonup> int" where
  "max_retries =
     map_of [(''file_operation'', 5), (''stream_error'', 3),
             (''permission_error'', 10), (''network_error'', 3)]"

definition base_backoff :: real where "base_backoff = 1"
definition max_backoff :: real where "max_backoff = 30"
definition cb_failure_threshold :: int where "cb_failure_threshold = 5"
definition cb_timeout :: real where "cb_timeout = 60"

text \<open>
  \<open>str.lower()\<close> and the substring test \<open>needle in text\<close>. A message is a string of
  code points below 256. Of these, \<open>str.lower()\<close> changes the letters \<open>A\<close> to \<open>Z\<close> and
  the capital letters of Latin-1 (\<open>0xC0\<close> to \<open>0xDE\<close> without the sign \<open>0xD7\<close>), each to
  the code point 32 above it.
\<close>

definition latin1_upper :: string where
  "latin1_upper =
     [CHR 0xC0, CHR 0xC1, CHR 0xC2, CHR 0xC3, CHR 0xC4, CHR 0xC5, CHR 0xC6, CHR 0xC7,
      CHR 0xC8, CHR 0xC9, CHR 0xCA, CHR 0xCB, CHR 0xCC, CHR 0xCD, CHR 0xCE, CHR 0xCF,
      CHR 0xD0, CHR 0xD1, CHR 0xD2, CHR 0xD3, CHR 0xD4, CHR 0xD5, CHR 0xD6, CHR 0xD8,
      CHR 0xD9, CHR 0xDA, CHR 0xDB, CHR 0xDC, CHR 0xDD, CHR 0xDE]"

definition latin1_lower :: string where
  "latin1_lower =
     [CHR 0xE0, CHR 0xE1, CHR 0xE2, CHR 0xE3, CHR 0xE4, CHR 0xE5, CHR 0xE6, CHR 0xE7,
      CHR 0xE8, CHR 0xE9, CHR 0xEA, CHR 0xEB, CHR 0xEC, CHR 0xED, CHR 0xEE, CHR 0xEF,
      CHR 0xF0, CHR 0xF1, CHR 0xF2, CHR 0xF3, CHR 0xF4, CHR 0xF5, CHR 0xF6, CHR 0xF8,
      CHR 0xF9, CHR 0xFA, CHR 0xFB, CHR 0xFC, CHR 0xFD, CHR 0xFE]"

definition lower_char :: "char \<Rightarrow> char" where
  "lower_char c =
     (case map_of (zip (''ABCDEFGHIJKLMNOPQRSTUVWXYZ'' @ latin1_upper)
                       (''abcdefghijklmnopqrstuvwxyz'' @ latin1_lower)) c of
        None \<Rightarrow> c | Some l \<Rightarrow> l)"

definition lower :: "string \<Rightarrow> string" where
  "lower s = map lower_char s"

fun contains :: "string \<Rightarrow> string \<Rightarrow> bool" where
  "contains needle [] = (needle = [])"
| "contains needle (c # cs) = (prefix needle (c # cs) \<or> contains needle cs)"

definition classify_error :: "py_exception \<Rightarrow> string" where
  "classify_error error =
     (let error_msg = lower (str error) in
      if contains ''underlying stream is not seekable'' error_msg then ''stream_error''
      else if contains ''permission denied'' error_msg \<or> contains ''access denied'' error_msg
        then ''permission_error''
      else if contains ''no such file'' error_msg \<or> contains ''file not found'' error_msg
        then ''file_not_found''
      else if contains ''connection'' error_msg \<or> contains ''network'' error_msg
        then ''network_error''
      else if contains ''disk'' error_msg \<or> contains ''space'' error_msg
        then ''disk_error''
      else ''unknown_error'')"

definition get_recovery_action :: "string \<Rightarrow> ErrorContext \<Rightarrow> RecoveryAction" where
  "get_recovery_action etype context =
     (let max_attempts = (case max_retries etype of None \<Rightarrow> 3 | Some m \<Rightarrow> m) in
      if attempt_count context > max_attempts then
        (if etype \<in> set [''stream_error'', ''file_not_found'']
         then RESTART_COMPONENT else FATAL_EXIT)
      else if etype = ''stream_error'' then
        (if attempt_count context = 1 then RETRY_IMMEDIATE else RETRY_WITH_BACKOFF)
      else if etype \<in> set [''file_not_found'', ''permission_error''] then RETRY_WITH_BACKOFF
      else if etype = ''network_error'' then RETRY_WITH_BACKOFF
      else RETRY_WITH_BACKOFF)"

definition should_retry :: "string \<Rightarrow> int \<Rightarrow> bool" where
  "should_retry etype n = (n \<le> (case max_retries etype of None \<Rightarrow> 3 | Some m \<Rightarrow> m))"

text \<open>
  \<open>get_backoff_delay\<close>: \<open>self.base_backoff * (2 ** (attempt - 1))\<close>, then \<open>min\<close> with the cap.
  For \<open>attempt \<ge> 1\<close> the power is an exact Python integer, and the product with the float
  \<open>1.0\<close> converts it to a float: an integer of \<open>2 ** 1024\<close> or more cannot be converted and
  Python raises \<open>OverflowError\<close>. Below that every value met here (a power of two, or 30)
  is a float exactly, so the real number is the float. For \<open>attempt \<le> 0\<close> the power is
  the float \<open>2.0 ** (attempt - 1)\<close>, which underflows to 0 below \<open>2 ** -1074\<close>.
\<close>

definition get_backoff_delay :: "int \<Rightarrow> py_exception + real" where
  "get_backoff_delay attempt =
     (if attempt - 1 \<ge> 0 then
        (let p = (2::int) ^ nat (attempt - 1) in
         if p \<ge> 2 ^ 1024 then Inl (OverflowError ''int too large to convert to float'')
         else Inr (min (base_backoff * real_of_int p) max_backoff))
      else
        (let delay = (if 1 - attempt > 1074 then 0 else base_backoff * (1 / 2 ^ nat (1 - attempt)))
         in Inr (min delay max_backoff)))"

definition count_recent_failures :: "ErrorContext \<Rightarrow> real \<Rightarrow> int" where
  "count_recent_failures context now = attempt_count context"

text \<open>
  \<open>_should_circuit_break(cb_state, context)\<close>. The Python receives the breaker object
  itself, the one stored in the breaker map under the key \<open>c\<close>, and assigns to its fields:
  here the entry under \<open>c\<close> is replaced. \<open>update_circuit_breaker\<close> then stores the same
  object under \<open>context.component\<close> and saves.
\<close>

definition should_circuit_break ::
  "StateManager \<Rightarrow> filesystem \<Rightarrow> string \<Rightarrow> CircuitBreakerState \<Rightarrow> ErrorContext \<Rightarrow> real
     \<Rightarrow> bool \<times> StateManager \<times> filesystem" where
  "should_circuit_break sm fs c cb_state context now =
     (if is_open cb_state then
        (if now \<ge> next_attempt_time cb_state
         then (False, set_cb sm c (cb_state\<lparr>is_open := False\<rparr>), fs)
         else (True, sm, fs))
      else if attempt_count context \<ge> cb_failure_threshold then
        (let recent_failures = count_recent_failures context now in
         if recent_failures \<ge> cb_failure_threshold then
           (let cb1 = cb_state\<lparr>is_open := True, failure_count := recent_failures,
                                last_failure_time := now,
                                next_attempt_time := now + cb_timeout\<rparr>;
                (sm1, fs1) = update_circuit_breaker (set_cb sm c cb1) fs (component context) cb1
            in (True, sm1, fs1))
         else (False, sm, fs))
      else (False, sm, fs))"

text \<open>
  \<open>handle_error(error, component)\<close>. \<open>tb\<close> is what \<open>traceback.format_exc()\<close> returns,
  \<open>t_attempt\<close> the clock read for \<open>last_attempt_time\<close>, \<open>now\<close> the later clock read of
  \<open>_should_circuit_break\<close>.
\<close>

definition context_key :: "string \<Rightarrow> string \<Rightarrow> string" where
  "context_key c etype = c @ ''_'' @ etype"

definition touch_context ::
  "(string \<rightharpoonup> ErrorContext) \<Rightarrow> py_exception \<Rightarrow> string \<Rightarrow> string \<Rightarrow> real \<Rightarrow> ErrorContext" where
  "touch_context ctxs error tb c t_attempt =
     (let etype = classify_error error;
          context = (case ctxs (context_key c etype) of
                       Some x \<Rightarrow> x
                     | None \<Rightarrow> \<lparr> error_type = etype, component = c, attempt_count = 0,
                                  last_attempt_time = 0, error_message = str error,
                                  stack_trace = Some tb \<rparr>)
      in context\<lparr>attempt_count := attempt_count context + 1,
                 last_attempt_time := t_attempt,
                 error_message := str error\<rparr>)"

definition handle_error ::
  "ErrorHandler \<Rightarrow> filesystem \<Rightarrow> py_exception \<Rightarrow> string \<Rightarrow> string \<Rightarrow> real \<Rightarrow> real
     \<Rightarrow> RecoveryAction \<times> ErrorHandler \<times> filesystem" where
  "handle_error eh fs error tb c t_attempt now =
     (let etype = classify_error error;
          context = touch_context (error_contexts eh) error tb c t_attempt;
          ctxs1 = (error_contexts eh)(context_key c etype \<mapsto> context);
          (cb_state, sm1) = get_circuit_breaker (state_manager eh) c;
          (brk, sm2, fs2) = should_circuit_break sm1 fs c cb_state context now;
          eh2 = eh\<lparr>state_manager := sm2, error_contexts := ctxs1\<rparr>
      in if brk then (CIRCUIT_BREAKER, eh2, fs2)
         else (get_recovery_action etype context, eh2, fs2))"

definition record_success ::
  "ErrorHandler \<Rightarrow> filesystem \<Rightarrow> string \<Rightarrow> real \<Rightarrow> ErrorHandler \<times> filesystem" where
  "record_success eh fs c now =
     (let (cb_state, sm1) = get_circuit_breaker (state_manager eh) c;
          (sm2, fs2) =
            (if is_open cb_state then
               (let cb1 = cb_state\<lparr>is_open := False, failure_count := 0,
                                    last_success_time := now\<rparr>
                in update_circuit_breaker (set_cb sm1 c cb1) fs c cb1)
             else (sm1, fs))
      in (eh\<lparr>state_manager := sm2,
              error_contexts := (\<lambda>key. if prefix c key then None else error_contexts eh key)\<rparr>,
          fs2))"

definition trigger_circuit_breaker ::
  "ErrorHandler \<Rightarrow> filesystem \<Rightarrow> string \<Rightarrow> real \<Rightarrow> ErrorHandler \<times> filesystem" where
  "trigger_circuit_breaker eh fs c now =
     (let (cb_state, sm1) = get_circuit_breaker (state_manager eh) c;
          cb1 = cb_state\<lparr>is_open := True, next_attempt_time := now + cb_timeout\<rparr>;
          (sm2, fs2) = update_circuit_breaker (set_cb sm1 c cb1) fs c cb1
      in (eh\<lparr>state_manager := sm2\<rparr>, fs2))"

definition is_circuit_open :: "ErrorHandler \<Rightarrow> string \<Rightarrow> real \<Rightarrow> bool \<times> ErrorHandler" where
  "is_circuit_open eh c now =
     (let (cb_state, sm1) = get_circuit_breaker (state_manager eh) c;
          eh1 = eh\<lparr>state_manager := sm1\<rparr>
      in if is_open cb_state \<and> now \<ge> next_attempt_time cb_state then (False, eh1)
         else (is_open cb_state, eh1))"

text \<open>The breaker of a component as the state manager holds it.\<close>

definition breaker_of :: "ErrorHandler \<Rightarrow> string \<Rightarrow> CircuitBreakerState option" where
  "breaker_of eh c = circuit_breaker_states (state (state_manager eh)) c"

section \<open>LogFileManager (log\_file\_manager.py)\<close>

text \<open>
  The open text file: the position that \<open>tell()\<close> reports, and whether the stream can
  be positioned at all. On a stream that cannot, \<open>tell\<close> and \<open>seek\<close> raise the
  \<open>OSError\<close> this program is written around; \<open>seek\<close> to a negative position raises
  \<open>ValueError\<close>.
\<close>

record handle =
  h_pos :: int
  h_seekable :: bool

definition not_seekable :: py_exception where
  "not_seekable = OSError ''underlying stream is not seekable''"

definition tell :: "handle \<Rightarrow> py_exception + int" where
  "tell h = (if h_seekable h then Inr (h_pos h) else Inl not_seekable)"

definition seek :: "handle \<Rightarrow> int \<Rightarrow> py_exception + handle" where
  "seek h p =
     (if \<not> h_seekable h then Inl not_seekable
      else if p < 0 then Inl (ValueError ''negative seek position'')
      else Inr (h\<lparr>h_pos := p\<rparr>))"

definition seek_end :: "handle \<Rightarrow> int \<Rightarrow> py_exception + handle" where
  "seek_end h end_pos = (if \<not> h_seekable h then Inl not_seekable else Inr (h\<lparr>h_pos := end_pos\<rparr>))"

text \<open>
  What the operating system answers about the watched path during one call:
  \<open>os.path.exists\<close>, \<open>open\<close> (\<open>None\<close>: it succeeds), whether the opened stream can be
  positioned, \<open>os.stat\<close> (inode and size, or the exception), and the end of the file
  that \<open>seek(0, 2)\<close> reaches.
\<close>

record log_env =
  log_exists :: bool
  log_open :: "py_exception option"
  log_seekable :: bool
  log_stat :: "py_exception + (int \<times> int)"
  log_end :: int

text \<open>
  The manager holds the error handler, and with it the state manager: the two
  collaborators are wired to one and the same \<open>StateManager\<close>.
\<close>

record LogFileManager =
  error_handler :: "ErrorHandler"
  current_file :: "handle option"
  current_path :: "string option"
  current_inode :: "int option"
  last_position :: int

definition lfm_state :: "LogFileManager \<Rightarrow> WatcherState" where
  "lfm_state m = state (state_manager (error_handler m))"

definition lfm_update_file_position ::
  "LogFileManager \<Rightarrow> int \<Rightarrow> int option \<Rightarrow> LogFileManager" where
  "lfm_update_file_position m position inode =
     m\<lparr>error_handler := (error_handler m)
          \<lparr>state_manager :=
             update_file_position (state_manager (error_handler m)) position inode\<rparr>\<rparr>"

text \<open>
  \<open>_close_file\<close>: the final position is saved when \<open>tell()\<close> answers; an exception is
  printed and dropped; the handle and the inode are forgotten in any case.
\<close>

definition close_file :: "LogFileManager \<Rightarrow> LogFileManager" where
  "close_file m =
     (case current_file m of
        None \<Rightarrow> m
      | Some h \<Rightarrow>
          (let m1 = (case tell h of
                       Inl e \<Rightarrow> m
                     | Inr final_pos \<Rightarrow> lfm_update_file_position m final_pos (current_inode m))
           in m1\<lparr>current_file := None, current_inode := None\<rparr>))"

text \<open>
  \<open>_ensure_file_open\<close>. The result is \<open>Inr True\<close>, \<open>Inr False\<close> (the file is not there
  yet) or \<open>Inl e\<close> for the exception that leaves the call after \<open>_close_file\<close>.
  \<open>os.path.exists(None)\<close> raises \<open>TypeError\<close> before the \<open>try\<close>.
\<close>

definition ensure_file_open ::
  "LogFileManager \<Rightarrow> filesystem \<Rightarrow> log_env \<Rightarrow> real
     \<Rightarrow> (py_exception + bool) \<times> LogFileManager \<times> filesystem" where
  "ensure_file_open m fs env now =
     (if current_file m \<noteq> None then (Inr True, m, fs)
      else (case current_path m of
        None \<Rightarrow> (Inl (TypeError ''stat: path should be string, not NoneType''), m, fs)
      | Some path \<Rightarrow>
        if \<not> log_exists env then (Inr False, m, fs)
        else (case log_open env of
          Some e \<Rightarrow> (Inl e, close_file m, fs)
        | None \<Rightarrow>
          (let m1 = m\<lparr>current_file := Some \<lparr>h_pos = 0, h_seekable = log_seekable env\<rparr>\<rparr> in
           case log_stat env of
             Inl e \<Rightarrow> (Inl e, close_file m1, fs)
           | Inr (st_ino, file_size) \<Rightarrow>
             (let m2 = m1\<lparr>current_inode := Some st_ino\<rparr>;
                  h = \<lparr>h_pos = 0, h_seekable = log_seekable env\<rparr>;
                  saved_position = file_position (lfm_state m2);
                  saved_inode = file_inode (lfm_state m2);
                  sought =
                    (if saved_inode = Some st_ino \<and> saved_position \<le> file_size
                     then (case seek h saved_position of
                             Inl e \<Rightarrow> Inl e
                           | Inr h1 \<Rightarrow> Inr (h1, saved_position))
                     else (case seek_end h (log_end env) of
                             Inl e \<Rightarrow> Inl e
                           | Inr h1 \<Rightarrow>
                               (case tell h1 of Inl e \<Rightarrow> Inl e | Inr p \<Rightarrow> Inr (h1, p))))
              in case sought of
                   Inl e \<Rightarrow> (Inl e, close_file m2, fs)
                 | Inr (h1, pos) \<Rightarrow>
                     (let m3 = m2\<lparr>current_file := Some h1, last_position := pos\<rparr>;
                          m4 = lfm_update_file_position m3 pos (current_inode m3);
                          (eh5, fs5) = record_success (error_handler m4) fs ''file_manager'' now
                      in (Inr True, m4\<lparr>error_handler := eh5\<rparr>, fs5)))))))"

text \<open>
  \<open>_read_lines\<close>, run to its end. What \<open>readline()\<close> gives, call after call, is a list
  of events: a line, or an exception; after the list, and at an empty line, the empty
  string of the end of the file. A line is given by the bytes that it takes in the file,
  its line end included, and \<open>tell()\<close> advances by their number. The line yielded is
  given by its bytes as well: stripping the line end from the text strips its bytes. The
  result is the lines yielded, the exception that leaves the generator (if any) and the
  manager.
\<close>

datatype read_event = Line string | ReadFails py_exception

definition rstrip_newlines :: "string \<Rightarrow> string" where
  "rstrip_newlines l = rev (dropWhile (\<lambda>c. c = CHR 0x0A \<or> c = CHR 0x0D) (rev l))"

definition reseek_last_position :: "LogFileManager \<Rightarrow> LogFileManager" where
  "reseek_last_position m =
     (case current_file m of
        None \<Rightarrow> m
      | Some h \<Rightarrow> (case seek h (last_position m) of
                     Inl e \<Rightarrow> m
                   | Inr h1 \<Rightarrow> m\<lparr>current_file := Some h1\<rparr>))"

fun read_loop ::
  "LogFileManager \<Rightarrow> handle \<Rightarrow> read_event list
     \<Rightarrow> string list \<times> py_exception option \<times> LogFileManager" where
  "read_loop m h [] =
     (case tell h of
        Inl e \<Rightarrow> ([], Some e, reseek_last_position m)
      | Inr pos_before \<Rightarrow> ([], None, m))"
| "read_loop m h (ReadFails e # rest) =
     (case tell h of
        Inl e0 \<Rightarrow> ([], Some e0, reseek_last_position m)
      | Inr pos_before \<Rightarrow>
          if is_OSError e \<and> contains ''underlying stream is not seekable'' (str e)
          then ([], Some e, reseek_last_position (close_file m))
          else ([], Some e, reseek_last_position m))"
| "read_loop m h (Line l # rest) =
     (case tell h of
        Inl e \<Rightarrow> ([], Some e, reseek_last_position m)
      | Inr pos_before \<Rightarrow>
          if l = [] then ([], None, m)
          else
            (let h1 = h\<lparr>h_pos := h_pos h + int (length l)\<rparr>;
                 m1 = m\<lparr>current_file := Some h1\<rparr>
             in case tell h1 of
                  Inl e \<Rightarrow> ([], Some e, reseek_last_position m1)
                | Inr p \<Rightarrow>
                    (let m2 = m1\<lparr>last_position := p\<rparr>;
                         m3 = (if p mod 50 = 0
                               then lfm_update_file_position m2 p (current_inode m2)
                               else m2);
                         (ls, exc, m4) = read_loop m3 h1 rest
                     in (rstrip_newlines l # ls, exc, m4))))"

definition read_lines ::
  "LogFileManager \<Rightarrow> read_event list
     \<Rightarrow> string list \<times> py_exception option \<times> LogFileManager" where
  "read_lines m events =
     (case current_file m of
        None \<Rightarrow> ([], None, m)
      | Some h \<Rightarrow> read_loop m h events)"

text \<open>
  \<open>detect_rotation\<close>. Only \<open>OSError\<close> is caught; another exception leaves the call.
  \<open>self.current_inode and ...\<close> is Python's truth test: \<open>None\<close> and 0 both skip the
  comparison of the inodes.
\<close>

definition detect_rotation :: "LogFileManager \<Rightarrow> log_env \<Rightarrow> py_exception + bool" where
  "detect_rotation m env =
     (if current_path m = None \<or> current_path m = Some [] \<or> \<not> log_exists env then Inr True
      else (case log_stat env of
        Inl e \<Rightarrow> if is_OSError e then Inr True else Inl e
      | Inr (cur_inode, cur_size) \<Rightarrow>
          if (case current_inode m of None \<Rightarrow> False | Some i \<Rightarrow> i \<noteq> 0 \<and> cur_inode \<noteq> i)
          then Inr True
          else (case current_file m of
                  None \<Rightarrow> Inr False
                | Some h \<Rightarrow>
                    (case tell h of
                       Inl e \<Rightarrow> if is_OSError e then Inr True else Inl e
                     | Inr current_pos \<Rightarrow>
                         if cur_size < current_pos - 1000 then Inr True else Inr False))))"

definition get_file_position :: "LogFileManager \<Rightarrow> int" where
  "get_file_position m =
     (case current_file m of
        None \<Rightarrow> last_position m
      | Some h \<Rightarrow> (case tell h of Inl e \<Rightarrow> last_position m | Inr p \<Rightarrow> p))"

section \<open>Example inputs\<close>

text \<open>
  A state manager on the default path with the default state built at time 100, an error
  handler on it with no error context yet, and an empty directory.
\<close>

definition sm0 :: "StateManager" where
  "sm0 = \<lparr> state_path = ''/tmp/watcher_state.json'',
           state = WatcherState_new 100 no_state_kwargs \<rparr>"

definition eh0 :: "ErrorHandler" where
  "eh0 = \<lparr> state_manager = sm0, error_contexts = Map.empty \<rparr>"

definition fs0 :: "filesystem" where
  "fs0 = \<lparr> files = Map.empty, read_denied = {}, write_denied = {} \<rparr>"

definition stream_exc :: py_exception where
  "stream_exc = OSError ''underlying stream is not seekable''"

text \<open>
  An error handler after five stream errors of the component \<open>tailer\<close> at time 100: the
  breaker of \<open>tailer\<close> is open until 160. Two other components have error contexts of
  their own. \<open>half_open_run\<close> is the next stream error of \<open>tailer\<close>, handled at time
  200, after the deadline; \<open>eh_half\<close> and \<open>fs_half\<close> are the handler and the files
  after it.
\<close>

definition cb_open :: CircuitBreakerState where
  "cb_open = \<lparr> is_open = True, failure_count = 5, last_failure_time = 100,
               last_success_time = 0, next_attempt_time = 160 \<rparr>"

definition ctx_of :: "string \<Rightarrow> string \<Rightarrow> int \<Rightarrow> ErrorContext" where
  "ctx_of c k n = \<lparr> error_type = k, component = c, attempt_count = n, last_attempt_time = 100,
       error_message = ''underlying stream is not seekable'', stack_trace = Some ''tb'' \<rparr>"

definition eh_open :: "ErrorHandler" where
  "eh_open =
     \<lparr> state_manager = sm0\<lparr>state := (state sm0)\<lparr>circuit_breaker_states := [''tailer'' \<mapsto> cb_open]\<rparr>\<rparr>,
       error_contexts = [''tailer_stream_error'' \<mapsto> ctx_of ''tailer'' ''stream_error'' 5,
                         ''tailer2_stream_error'' \<mapsto> ctx_of ''tailer2'' ''stream_error'' 2,
                         ''db_network_error'' \<mapsto> ctx_of ''db'' ''network_error'' 1] \<rparr>"

definition half_open_run :: "RecoveryAction \<times> ErrorHandler \<times> filesystem" where
  "half_open_run = handle_error eh_open fs0 stream_exc ''tb'' ''tailer'' 200 200"

definition eh_half :: "ErrorHandler" where
  "eh_half = fst (snd half_open_run)"

definition fs_half :: "filesystem" where
  "fs_half = snd (snd half_open_run)"

definition net_exc :: py_exception where "net_exc = OSError ''connection reset by peer''"

text \<open>
  A state manager with entries in every container, the window holding two requests as
  the watcher records them. It is saved twice into the empty directory, so that the
  backup holds the state as well; in \<open>fs_backup_only\<close> the primary file has then been
  damaged. \<open>sm_tuple\<close> has a window entry with a tuple in it.
\<close>

definition request :: "string \<Rightarrow> bool \<Rightarrow> real \<Rightarrow> pyval" where
  "request pool err t =
     PDict [(KStr ''pool'', PStr pool), (KStr ''is_error'', PBool err),
            (KStr ''timestamp'', PFloat t)]"

definition sm_busy :: "StateManager" where
  "sm_busy =
     sm0\<lparr>state := (state sm0)\<lparr>last_alert_times := [''failover'' \<mapsto> 50],
                               error_rate_window :=
                                 [request ''blue'' False 98, request ''green'' True 99],
                               file_position := 42, file_inode := Some 7,
                               circuit_breaker_states := [''tailer'' \<mapsto> cb_open]\<rparr>\<rparr>"

definition fs_saved :: "filesystem" where
  "fs_saved = snd (save_state sm_busy (snd (save_state sm_busy fs0)))"

definition fs_backup_only :: "filesystem" where
  "fs_backup_only = put_file fs_saved ''/tmp/watcher_state.json'' (Garbage ''{ file_pos'')"

definition sm_tuple :: "StateManager" where
  "sm_tuple =
     sm0\<lparr>state := (state sm0)\<lparr>error_rate_window :=
                                 [PDict [(KStr ''t'', PTuple [PInt 1, PInt 2])]]\<rparr>\<rparr>"

text \<open>
  A manager with the log open at position 0 (inode 7), and one at the odd position 1;
  a line of 50 bytes; what the operating system answers for a file of a given inode and
  size; a manager whose file has a given inode and whose handle is at a given position;
  and a manager that has no file open, over the saved state of \<open>sm_busy\<close> (position 42, inode 7).
\<close>

definition line50 :: string where
  "line50 = replicate 49 (CHR ''x'') @ [CHR 0x0A]"

definition lfm0 :: "LogFileManager" where
  "lfm0 = \<lparr> error_handler = eh0, current_file = Some \<lparr>h_pos = 0, h_seekable = True\<rparr>,
            current_path = Some ''/var/log/nginx/access.log'', current_inode = Some 7,
            last_position = 0 \<rparr>"

definition line2 :: string where
  "line2 = [CHR ''a'', CHR 0x0A]"

definition lfm_odd :: "LogFileManager" where
  "lfm_odd = lfm0\<lparr>current_file := Some \<lparr>h_pos = 1, h_seekable = True\<rparr>, last_position := 1\<rparr>"

definition env_ok :: "int \<Rightarrow> int \<Rightarrow> log_env" where
  "env_ok ino sz = \<lparr> log_exists = True, log_open = None, log_seekable = True,
                       log_stat = Inr (ino, sz), log_end = sz \<rparr>"

definition lfm_at :: "int \<Rightarrow> int \<Rightarrow> LogFileManager" where
  "lfm_at ino pos = lfm0\<lparr>current_file := Some \<lparr>h_pos = pos, h_seekable = True\<rparr>,
                         current_inode := Some ino, last_position := pos\<rparr>"

definition lfm_closed :: "LogFileManager" where
  "lfm_closed =
     \<lparr> error_handler = \<lparr> state_manager = sm_busy, error_contexts = Map.empty \<rparr>,
       current_file = None, current_path = Some ''/var/log/nginx/access.log'',
       current_inode = None, last_position = 0 \<rparr>"

section \<open>The recovery action\<close>

lemma classify_stream_exc: "classify_error stream_exc = ''stream_error''"
  by (simp add: stream_exc_def classify_error_def lower_def lower_char_def
        latin1_upper_def latin1_lower_def)

lemma handle_error_context:
  "handle_error eh fs error tb c t_attempt now = (action, eh', fs') \<Longrightarrow>
   error_contexts eh' (context_key c (classify_error error)) =
     Some (touch_context (error_contexts eh) error tb c t_attempt)"
  by (auto simp: handle_error_def Let_def split: prod.splits if_splits)

lemma touch_context_count:
  "attempt_count (touch_context ctxs error tb c t) =
     (case ctxs (context_key c (classify_error error)) of
        None \<Rightarrow> 1 | Some x \<Rightarrow> attempt_count x + 1)"
  by (simp add: touch_context_def Let_def split: option.splits)

lemma handle_error_action:
  "handle_error eh fs error tb c t_attempt now = (action, eh', fs') \<Longrightarrow>
   action \<noteq> CIRCUIT_BREAKER \<Longrightarrow>
   action = get_recovery_action (classify_error error)
              (touch_context (error_contexts eh) error tb c t_attempt)"
  by (auto simp: handle_error_def Let_def split: prod.splits if_splits)

lemma get_recovery_action_cases:
  "get_recovery_action k ctx =
    (let n = attempt_count ctx; m = (case max_retries k of None \<Rightarrow> 3 | Some m \<Rightarrow> m) in
     if n > m then
       (if k = ''stream_error'' \<or> k = ''file_not_found'' then RESTART_COMPONENT else FATAL_EXIT)
     else if k = ''stream_error'' \<and> n = 1 then RETRY_IMMEDIATE else RETRY_WITH_BACKOFF)"
  by (simp add: get_recovery_action_def Let_def)





section \<open>The backoff delay\<close>

lemma get_backoff_delay_in_range:
  assumes "1 \<le> attempt" and "attempt \<le> 1024"
  shows "get_backoff_delay attempt =
           Inr (min (base_backoff * 2 ^ nat (attempt - 1)) max_backoff)"
proof -
  have "nat (attempt - 1) < 1024" using assms by simp
  then have "(2::int) ^ nat (attempt - 1) < 2 ^ 1024"
    by (rule power_strict_increasing) simp
  then show ?thesis using assms by (simp add: get_backoff_delay_def Let_def)
qed

lemma get_backoff_delay_first: "get_backoff_delay 1 = Inr base_backoff"
  by (simp add: get_backoff_delay_def base_backoff_def max_backoff_def)

text \<open>
  Claim C9 says that the delay is \<open>min (base * 2 ^ (attempt - 1)) cap\<close> for every
  \<open>attempt \<ge> 1\<close>. The code computes the power before it caps: up to attempt 1024 the
  result is that minimum (\<open>get_backoff_delay_in_range\<close>), and at attempt 1025 the
  integer \<open>2 ** 1024\<close> is multiplied with the float \<open>1.0\<close> and the call raises
  \<open>OverflowError\<close> instead of returning the cap.
\<close>

theorem get_backoff_delay_overflow:
  "get_backoff_delay 1025 = Inl (OverflowError ''int too large to convert to float'')"
  by (simp add: get_backoff_delay_def)

section \<open>The circuit breaker\<close>

lemma breaker_eh_open: "breaker_of eh_open ''tailer'' = Some cb_open"
  by (simp add: breaker_of_def eh_open_def)

lemma cb_open_is_open: "is_open cb_open"
  by (simp add: cb_open_def)

lemma classify_net_exc: "classify_error net_exc = ''network_error''"
  by (simp add: net_exc_def classify_error_def lower_def lower_char_def
        latin1_upper_def latin1_lower_def)


lemma get_recovery_action_not_cb: "get_recovery_action k ctx \<noteq> CIRCUIT_BREAKER"
  by (simp add: get_recovery_action_def Let_def)

lemma breaker_of_set_cb:
  "circuit_breaker_states (state (set_cb sm c cb)) c = Some cb"
  by (simp add: set_cb_def)

lemma update_circuit_breaker_fst:
  "fst (update_circuit_breaker sm fs c cb) = set_cb sm c cb"
  by (simp add: update_circuit_breaker_def Let_def)

lemma handle_error_breaker:
  assumes "handle_error eh fs error tb c t_attempt now = (action, eh', fs')"
    and "cb = (case breaker_of eh c of None \<Rightarrow> default_cb | Some x \<Rightarrow> x)"
    and "ctx = touch_context (error_contexts eh) error tb c t_attempt"
  shows "breaker_of eh' c =
           Some (if is_open cb then (if now \<ge> next_attempt_time cb then cb\<lparr>is_open := False\<rparr> else cb)
                 else if attempt_count ctx \<ge> cb_failure_threshold
                 then cb\<lparr>is_open := True, failure_count := attempt_count ctx,
                         last_failure_time := now, next_attempt_time := now + cb_timeout\<rparr>
                 else cb)"
    and "action = CIRCUIT_BREAKER \<longleftrightarrow>
           (if is_open cb then now < next_attempt_time cb
            else attempt_count ctx \<ge> cb_failure_threshold)"
  using assms
  by (auto simp: handle_error_def Let_def breaker_of_def get_circuit_breaker_def
        should_circuit_break_def count_recent_failures_def update_circuit_breaker_def set_cb_def
        get_recovery_action_not_cb
      split: prod.splits if_splits option.splits)

lemma record_success_contexts:
  "record_success eh fs c now = (eh', fs') \<Longrightarrow>
   error_contexts eh' = (\<lambda>key. if prefix c key then None else error_contexts eh key)"
  by (auto simp: record_success_def Let_def split: prod.splits if_splits)

lemma record_success_breaker:
  "record_success eh fs c now = (eh', fs') \<Longrightarrow>
   breaker_of eh' c =
     (case breaker_of eh c of
        None \<Rightarrow> Some default_cb
      | Some cb \<Rightarrow> if is_open cb
                   then Some (cb\<lparr>is_open := False, failure_count := 0, last_success_time := now\<rparr>)
                   else Some cb)"
  by (auto simp: record_success_def Let_def breaker_of_def get_circuit_breaker_def
        update_circuit_breaker_def set_cb_def default_cb_def CircuitBreakerState_new_def no_cb_kwargs_def
      split: prod.splits if_splits option.splits)

lemma half_open_run_eq: "handle_error eh_open fs0 stream_exc ''tb'' ''tailer'' 200 200 = (fst half_open_run, eh_half, fs_half)"
  by (simp add: half_open_run_def eh_half_def fs_half_def)

lemma breaker_eh_half: "breaker_of eh_half ''tailer'' = Some (cb_open\<lparr>is_open := False\<rparr>)"
  using handle_error_breaker(1) [OF half_open_run_eq refl refl]
  by (simp add: breaker_eh_open cb_open_def)

lemma contexts_eh_half_net: "error_contexts eh_half ''tailer_network_error'' = None"
  by (simp add: eh_half_def half_open_run_def handle_error_def Let_def split_def classify_stream_exc
        context_key_def eh_open_def)

lemma contexts_eh_half_tailer2:
  "error_contexts eh_half ''tailer2_stream_error'' = Some (ctx_of ''tailer2'' ''stream_error'' 2)"
  by (simp add: eh_half_def half_open_run_def handle_error_def Let_def split_def classify_stream_exc
        context_key_def eh_open_def)

lemma contexts_eh_half_stream:
  "map_option attempt_count (error_contexts eh_half ''tailer_stream_error'') = Some 6"
  using handle_error_context [OF half_open_run_eq]
  by (simp add: classify_stream_exc context_key_def touch_context_count eh_open_def ctx_of_def)

lemma contexts_eh_open_db:
  "error_contexts eh_open ''db_network_error'' = Some (ctx_of ''db'' ''network_error'' 1)"
  by (simp add: eh_open_def)

text \<open>
  Claim C3 as stated fails: \<open>is_circuit_open\<close> assigns nothing to the breaker. With the
  breaker of \<open>tailer\<close> open until 160, the call at time 200 returns \<open>False\<close> and leaves
  the handler as it was, the breaker still open in the store; the call after it, at 201,
  returns \<open>False\<close> again. So there is no transition to half-open in this call, and
  \<open>False\<close> is not returned exactly once.
\<close>

theorem is_circuit_open_repeats_counterexample:
  "fst (is_circuit_open eh_open ''tailer'' 200) = False \<and>
   snd (is_circuit_open eh_open ''tailer'' 200) = eh_open \<and>
   fst (is_circuit_open (snd (is_circuit_open eh_open ''tailer'' 200)) ''tailer'' 201) = False \<and>
   map_option is_open (breaker_of (snd (is_circuit_open eh_open ''tailer'' 200)) ''tailer'') = Some True"
  by (simp add: is_circuit_open_def get_circuit_breaker_def eh_open_def breaker_of_def cb_open_def)

text \<open>
  Claim C3, amended. For a component whose breaker is open, \<open>is_circuit_open\<close> returns
  \<open>True\<close> when the current time is before \<open>next_attempt_time\<close> and \<open>False\<close> when the
  current time has reached it, on every call, and the error handler (with it the stored
  breaker) is unchanged by the call.
\<close>

theorem is_circuit_open_read_only:
  assumes "breaker_of eh c = Some cb" and "is_open cb"
  shows "is_circuit_open eh c now = (now < next_attempt_time cb, eh)"
  using assms by (auto simp: is_circuit_open_def breaker_of_def get_circuit_breaker_def)

theorem is_circuit_open_read_only_witness:
  "breaker_of eh_open ''tailer'' = Some cb_open \<and> is_open cb_open \<and>
   is_circuit_open eh_open ''tailer'' 150 = (True, eh_open) \<and>
   is_circuit_open eh_open ''tailer'' 160 = (False, eh_open)"
proof -
  have o: "is_open cb_open" by (simp add: cb_open_def)
  show ?thesis
    using is_circuit_open_read_only [OF breaker_eh_open o, of 150]
          is_circuit_open_read_only [OF breaker_eh_open o, of 160] breaker_eh_open o
    by (simp add: cb_open_def)
qed

text \<open>
  Claim C4 as stated fails. After the lazy transition of \<open>half_open_run\<close> (a stream error
  handled at 200, past the deadline 160) the breaker of \<open>tailer\<close> is no longer open. The
  very next failure of \<open>tailer\<close>, a network error at 201, is the first of its kind: its
  attempt count is 1, below the threshold 5, the action is \<open>RETRY_WITH_BACKOFF\<close> and the
  breaker stays closed.
\<close>

theorem half_open_failure_counterexample:
  "map_option is_open (breaker_of eh_open ''tailer'') = Some True \<and>
   next_attempt_time cb_open \<le> 200 \<and>
   map_option is_open (breaker_of eh_half ''tailer'') = Some False \<and>
   fst (handle_error eh_half fs_half net_exc ''tb'' ''tailer'' 201 201) = RETRY_WITH_BACKOFF \<and>
   map_option is_open
     (breaker_of (fst (snd (handle_error eh_half fs_half net_exc ''tb'' ''tailer'' 201 201))) ''tailer'')
     = Some False"
proof -
  obtain a2 eh2 fs2 where h:
    "handle_error eh_half fs_half net_exc ''tb'' ''tailer'' 201 201 = (a2, eh2, fs2)"
    by (cases "handle_error eh_half fs_half net_exc ''tb'' ''tailer'' 201 201") auto
  have n: "attempt_count (touch_context (error_contexts eh_half) net_exc ''tb'' ''tailer'' 201) = 1"
    by (simp add: touch_context_count classify_net_exc context_key_def contexts_eh_half_net)
  have b: "breaker_of eh2 ''tailer'' = Some (cb_open\<lparr>is_open := False\<rparr>)"
    using handle_error_breaker(1) [OF h refl refl] n
    by (simp add: breaker_eh_half cb_failure_threshold_def)
  have nb: "a2 \<noteq> CIRCUIT_BREAKER"
    using handle_error_breaker(2) [OF h refl refl] n
    by (simp add: breaker_eh_half cb_failure_threshold_def)
  have a: "a2 = RETRY_WITH_BACKOFF"
    using handle_error_action [OF h nb] n
    by (simp add: classify_net_exc get_recovery_action_cases max_retries_def Let_def)
  show ?thesis
    using h a b by (simp add: breaker_eh_open breaker_eh_half cb_open_def)
qed

text \<open>
  Claim C4, amended. Let the breaker of \<open>c\<close> be open with its deadline passed at \<open>t1\<close>.
  A failure of \<open>c\<close> handled at \<open>t1\<close> makes the lazy transition: the breaker is stored
  with \<open>is_open = False\<close>, and the action is not \<open>CIRCUIT_BREAKER\<close>. For the very next
  failure of \<open>c\<close>, handled at \<open>t2\<close>, let \<open>n\<close> be the attempt count of its
  (component, kind) context after the increment. If \<open>n\<close> has reached the failure
  threshold, the breaker is open again with \<open>next_attempt_time = t2 + cb_timeout\<close>
  (\<open>failure_count = n\<close>, \<open>last_failure_time = t2\<close>) and the action is
  \<open>CIRCUIT_BREAKER\<close>; otherwise the breaker stays closed.
\<close>

theorem half_open_failure:
  assumes "breaker_of eh c = Some cb" and "is_open cb" and "next_attempt_time cb \<le> t1"
    and "handle_error eh fs e1 tb1 c ta1 t1 = (a1, eh1, fs1)"
    and "handle_error eh1 fs1 e2 tb2 c ta2 t2 = (a2, eh2, fs2)"
    and "n = attempt_count (the (error_contexts eh2 (context_key c (classify_error e2))))"
  shows "breaker_of eh1 c = Some (cb\<lparr>is_open := False\<rparr>) \<and> a1 \<noteq> CIRCUIT_BREAKER \<and>
         (if n \<ge> cb_failure_threshold
          then a2 = CIRCUIT_BREAKER \<and>
               breaker_of eh2 c =
                 Some (cb\<lparr>is_open := True, failure_count := n, last_failure_time := t2,
                          next_attempt_time := t2 + cb_timeout\<rparr>)
          else a2 \<noteq> CIRCUIT_BREAKER \<and> breaker_of eh2 c = Some (cb\<lparr>is_open := False\<rparr>))"
proof -
  have s1: "breaker_of eh1 c = Some (cb\<lparr>is_open := False\<rparr>)" and a1: "a1 \<noteq> CIRCUIT_BREAKER"
    using handle_error_breaker [OF assms(4) refl refl] assms(1,2,3) by simp_all
  have n: "n = attempt_count (touch_context (error_contexts eh1) e2 tb2 c ta2)"
    using handle_error_context [OF assms(5)] assms(6) by simp
  show ?thesis
    using handle_error_breaker [OF assms(5) refl refl] s1 a1 n by simp
qed

theorem half_open_failure_witness:
  "breaker_of eh_open ''tailer'' = Some cb_open \<and> is_open cb_open \<and>
   next_attempt_time cb_open \<le> 200 \<and>
   breaker_of eh_half ''tailer'' = Some (cb_open\<lparr>is_open := False\<rparr>) \<and>
   fst (handle_error eh_half fs_half stream_exc ''tb'' ''tailer'' 201 201) = CIRCUIT_BREAKER \<and>
   breaker_of (fst (snd (handle_error eh_half fs_half stream_exc ''tb'' ''tailer'' 201 201))) ''tailer'' =
     Some (cb_open\<lparr>is_open := True, failure_count := 7, last_failure_time := 201,
                    next_attempt_time := 261\<rparr>)"
proof -
  obtain a2 eh2 fs2 where h:
    "handle_error eh_half fs_half stream_exc ''tb'' ''tailer'' 201 201 = (a2, eh2, fs2)"
    by (cases "handle_error eh_half fs_half stream_exc ''tb'' ''tailer'' 201 201") auto
  have d: "next_attempt_time cb_open \<le> 200" by (simp add: cb_open_def)
  have n: "attempt_count (the (error_contexts eh2 (context_key ''tailer'' (classify_error stream_exc)))) = 7"
    using handle_error_context [OF h] contexts_eh_half_stream
    by (auto simp: classify_stream_exc context_key_def touch_context_count split: option.splits)
  show ?thesis
    using half_open_failure [OF breaker_eh_open cb_open_is_open d half_open_run_eq h refl] h n
          breaker_eh_open cb_open_is_open d
    by (simp add: cb_failure_threshold_def cb_timeout_def)
qed

section \<open>Recording a success\<close>

text \<open>
  Claim C5 as stated fails. In \<open>eh_half\<close> the breaker of \<open>tailer\<close> is half-open: not
  open, with the failure count 5 of the streak that opened it. \<open>record_success\<close> resets
  the count only inside \<open>if cb_state.is_open\<close>, so the count is still 5 afterwards. And
  the context of the other component \<open>tailer2\<close> is removed too, its key
  \<open>tailer2_stream_error\<close> starting with \<open>tailer\<close>.
\<close>

theorem record_success_counterexample:
  "map_option is_open (breaker_of eh_half ''tailer'') = Some False \<and>
   map_option failure_count
     (breaker_of (fst (record_success eh_half fs_half ''tailer'' 300)) ''tailer'') = Some 5 \<and>
   error_contexts eh_half ''tailer2_stream_error'' = Some (ctx_of ''tailer2'' ''stream_error'' 2) \<and>
   error_contexts (fst (record_success eh_half fs_half ''tailer'' 300)) ''tailer2_stream_error'' = None"
proof -
  obtain eh' fs' where h: "record_success eh_half fs_half ''tailer'' 300 = (eh', fs')"
    by (cases "record_success eh_half fs_half ''tailer'' 300") auto
  have b: "breaker_of eh' ''tailer'' = Some (cb_open\<lparr>is_open := False\<rparr>)"
    using record_success_breaker [OF h] by (simp add: breaker_eh_half)
  have c: "error_contexts eh' ''tailer2_stream_error'' = None"
    using record_success_contexts [OF h] by simp
  show ?thesis using h b c by (simp add: breaker_eh_half contexts_eh_half_tailer2 cb_open_def)
qed

text \<open>
  Claim C5, amended. After \<open>record_success\<close> for \<open>c\<close> the breaker of \<open>c\<close> is not
  open: if it was open before the call, it is now closed with \<open>failure_count = 0\<close> and
  \<open>last_success_time\<close> the current time; if it was not open, it is as it was; if there
  was none, it is the default one. Every error context of \<open>c\<close> (key \<open>c_kind\<close>) is
  removed, and no context whose key does not start with the name \<open>c\<close> is touched. The
  next failure of any kind on \<open>c\<close> has attempt count 1.
\<close>

theorem record_success_effect:
  assumes "record_success eh fs c now = (eh', fs')"
    and "handle_error eh' fs' error tb c t_attempt t = (action, eh2, fs2)"
  shows "breaker_of eh' c =
           (case breaker_of eh c of
              None \<Rightarrow> Some default_cb
            | Some cb \<Rightarrow>
                if is_open cb
                then Some (cb\<lparr>is_open := False, failure_count := 0, last_success_time := now\<rparr>)
                else Some cb) \<and>
         \<not> is_open (the (breaker_of eh' c)) \<and>
         (\<forall>k. error_contexts eh' (context_key c k) = None) \<and>
         (\<forall>key. \<not> prefix c key \<longrightarrow> error_contexts eh' key = error_contexts eh key) \<and>
         attempt_count (the (error_contexts eh2 (context_key c (classify_error error)))) = 1"
proof -
  have b: "breaker_of eh' c =
           (case breaker_of eh c of
              None \<Rightarrow> Some default_cb
            | Some cb \<Rightarrow>
                if is_open cb
                then Some (cb\<lparr>is_open := False, failure_count := 0, last_success_time := now\<rparr>)
                else Some cb)"
    using record_success_breaker [OF assms(1)] .
  have o: "\<not> is_open (the (breaker_of eh' c))"
    using b by (simp add: default_cb_def CircuitBreakerState_new_def no_cb_kwargs_def split: option.splits)
  have c1: "\<And>k. error_contexts eh' (context_key c k) = None"
    using record_success_contexts [OF assms(1)] by (simp add: context_key_def)
  have c2: "\<And>key. \<not> prefix c key \<Longrightarrow> error_contexts eh' key = error_contexts eh key"
    using record_success_contexts [OF assms(1)] by simp
  have n: "attempt_count (the (error_contexts eh2 (context_key c (classify_error error)))) = 1"
    using handle_error_context [OF assms(2)] c1 by (simp add: touch_context_count)
  show ?thesis using b o c1 c2 n by blast
qed

theorem record_success_effect_witness:
  "breaker_of (fst (record_success eh_open fs0 ''tailer'' 300)) ''tailer'' =
     Some (cb_open\<lparr>is_open := False, failure_count := 0, last_success_time := 300\<rparr>) \<and>
   error_contexts (fst (record_success eh_open fs0 ''tailer'' 300))
     (context_key ''tailer'' ''stream_error'') = None \<and>
   \<not> prefix ''tailer'' ''db_network_error'' \<and>
   error_contexts (fst (record_success eh_open fs0 ''tailer'' 300)) ''db_network_error'' =
     Some (ctx_of ''db'' ''network_error'' 1) \<and>
   attempt_count (the (error_contexts
     (fst (snd (handle_error (fst (record_success eh_open fs0 ''tailer'' 300))
                  (snd (record_success eh_open fs0 ''tailer'' 300))
                  stream_exc ''tb'' ''tailer'' 301 301)))
     (context_key ''tailer'' ''stream_error''))) = 1"
proof -
  obtain eh' fs' where r: "record_success eh_open fs0 ''tailer'' 300 = (eh', fs')"
    by (cases "record_success eh_open fs0 ''tailer'' 300") auto
  obtain a2 eh2 fs2 where h:
    "handle_error eh' fs' stream_exc ''tb'' ''tailer'' 301 301 = (a2, eh2, fs2)"
    by (cases "handle_error eh' fs' stream_exc ''tb'' ''tailer'' 301 301") auto
  have p: "\<not> prefix ''tailer'' ''db_network_error''" by simp
  show ?thesis
    using record_success_effect [OF r h] r h p
    by (simp add: breaker_eh_open cb_open_is_open classify_stream_exc contexts_eh_open_db)
qed

section \<open>Saving and loading the state\<close>

lemma sequence_map_roundtrip:
  "(\<And>x. x \<in> set xs \<Longrightarrow> \<exists>j. D x = Inr j \<and> L j = x) \<Longrightarrow>
   \<exists>js. sequence (map D xs) = Inr js \<and> map L js = xs"
proof (induction xs)
  case Nil
  then show ?case by simp
next
  case (Cons a xs)
  obtain j where j: "D a = Inr j" "L j = a" using Cons.prems [of a] by auto
  obtain js where js: "sequence (map D xs) = Inr js" "map L js = xs"
    using Cons.IH Cons.prems by auto
  show ?case using j js by simp
qed

lemma dict_set_fresh: "k \<notin> fst ` set d \<Longrightarrow> dict_set d k v = d @ [(k, v)]"
  by (induction d) auto

lemma foldl_dict_set_distinct:
  "distinct (map fst (d @ kvs)) \<Longrightarrow>
   foldl (\<lambda>d kv. dict_set d (fst kv) (snd kv)) d kvs = d @ kvs"
proof (induction kvs arbitrary: d)
  case Nil
  then show ?case by simp
next
  case (Cons kv kvs)
  have f: "fst kv \<notin> fst ` set d" using Cons.prems by auto
  have "distinct (map fst ((d @ [kv]) @ kvs))" using Cons.prems by simp
  then have "foldl (\<lambda>d kv. dict_set d (fst kv) (snd kv)) (d @ [kv]) kvs = (d @ [kv]) @ kvs"
    by (rule Cons.IH)
  then show ?case using f by (simp add: dict_set_fresh [of "fst kv" d "snd kv"])
qed

lemma dict_of_distinct: "distinct (map fst kvs) \<Longrightarrow> dict_of kvs = kvs"
  using foldl_dict_set_distinct [of "[]" kvs] by (simp add: dict_of_def)

text \<open>
  A value that JSON has a form for is written without an exception and read back as it
  was.
\<close>

lemma json_native_roundtrip:
  "json_native v \<Longrightarrow> \<exists>j. json_dump v = Inr j \<and> json_load j = v"
proof (induction v)
  case (PList xs)
  have "\<And>x. x \<in> set xs \<Longrightarrow> \<exists>j. json_dump x = Inr j \<and> json_load j = x"
    using PList by (auto simp: list_all_iff)
  then obtain js where "sequence (map json_dump xs) = Inr js" "map json_load js = xs"
    using sequence_map_roundtrip [of xs json_dump json_load] by blast
  then show ?case by simp
next
  case (PDict kvs)
  let ?D = "\<lambda>kv. dump_item (map_prod id json_dump kv)"
  let ?L = "map_prod KStr json_load"
  have "\<And>kv. kv \<in> set kvs \<Longrightarrow> \<exists>j. ?D kv = Inr j \<and> ?L j = kv"
  proof -
    fix kv assume m: "kv \<in> set kvs"
    obtain k x where kv: "kv = (k, x)" by (cases kv)
    have "is_KStr k" and n: "json_native x" using PDict.prems m kv by (auto simp: list_all_iff)
    then obtain s where s: "k = KStr s" by (cases k) auto
    obtain j where j: "json_dump x = Inr j" "json_load j = x"
      using PDict.IH [of kv x] m kv n by auto
    show "\<exists>j. ?D kv = Inr j \<and> ?L j = kv"
      using kv s j by (simp add: dump_item_def)
  qed
  then obtain js where js: "sequence (map ?D kvs) = Inr js" "map ?L js = kvs"
    using sequence_map_roundtrip [of kvs ?D ?L] by blast
  have d: "distinct (map fst kvs)" using PDict.prems by simp
  have "dict_of (map ?L js) = kvs" using js(2) d by (simp add: dict_of_distinct)
  then show ?case using js(1) by (simp add: comp_def)
qed simp_all

lemma window_roundtrip:
  "list_all json_native w \<Longrightarrow> sequence (map json_dump w) = Inr js \<Longrightarrow> map json_load js = w"
  using sequence_map_roundtrip [of w json_dump json_load] json_native_roundtrip
  by (auto simp: list_all_iff)

lemma json_doc_native:
  assumes "list_all json_native (error_rate_window s)"
  shows "\<exists>d. json_dump_doc (asdict s) = Inr d"
proof -
  obtain js where "sequence (map json_dump (error_rate_window s)) = Inr js"
    using sequence_map_roundtrip [of "error_rate_window s" json_dump json_load]
          json_native_roundtrip assms
    by (auto simp: list_all_iff)
  then show ?thesis by (simp add: json_dump_doc_def asdict_def)
qed

lemma CircuitBreakerState_new_asdict: "CircuitBreakerState_new (asdict_cb cb) = cb"
  by (simp add: CircuitBreakerState_new_def asdict_cb_def)

text \<open>
  The state that \<open>load_state\<close> builds from the document of a state \<open>s\<close>: \<open>s\<close> with
  the window as JSON gives it back, and with the clock for a start-up time of 0.
\<close>

lemma from_doc_dump:
  assumes "json_dump_doc (asdict s) = Inr d"
  shows "\<exists>js. sequence (map json_dump (error_rate_window s)) = Inr js \<and>
           from_doc now d =
             s\<lparr>error_rate_window := map json_load js,
               startup_time := (if startup_time s = 0 then now else startup_time s)\<rparr>"
proof -
  obtain js where js: "sequence (map json_dump (error_rate_window s)) = Inr js"
    and d: "d = with_window (asdict s) (Some js)"
    using assms by (auto simp: json_dump_doc_def asdict_def split: sum.splits)
  have "from_doc now d =
          s\<lparr>error_rate_window := map json_load js,
            startup_time := (if startup_time s = 0 then now else startup_time s)\<rparr>"
    unfolding d
    by (cases s)
       (simp add: from_doc_def WatcherState_new_def convert_cb_states_def asdict_def
          json_load_doc_def with_window_def CircuitBreakerState_new_asdict
          option.map_comp comp_def option.map_ident)
  then show ?thesis using js by blast
qed

lemma load_from_stored:
  "stored_doc fs p = Some d \<Longrightarrow> load_from now fs p = Some (Inr (from_doc now d))"
  by (auto simp: load_from_def stored_doc_def from_doc_def path_exists_def open_read_def
       split: option.splits file_content.splits if_splits)

lemma load_from_not_stored:
  "stored_doc fs p = None \<Longrightarrow> load_from now fs p \<noteq> Some (Inr s)"
  by (auto simp: load_from_def stored_doc_def path_exists_def open_read_def
       split: option.splits file_content.splits if_splits)

lemma load_state_cases:
  "load_state now sm fs =
     (case stored_doc fs (state_path sm) of
        Some d \<Rightarrow> (True, sm\<lparr>state := from_doc now d\<rparr>)
      | None \<Rightarrow>
          (case stored_doc fs (backup_path sm) of
             Some d \<Rightarrow> (True, sm\<lparr>state := from_doc now d\<rparr>)
           | None \<Rightarrow> (False, sm)))"
proof -
  have n: "stored_doc fs p = None \<Longrightarrow>
           (case load_from now fs p of Some (Inr s) \<Rightarrow> f s | _ \<Rightarrow> g) = g" for p f and g :: "bool \<times> StateManager"
    using load_from_not_stored [of fs p now]
    by (auto split: option.splits sum.splits)
  show ?thesis
    by (auto simp: load_state_def load_from_stored n split: option.splits)
qed

lemma paths_distinct:
  "temp_path sm \<noteq> state_path sm" "backup_path sm \<noteq> state_path sm" "temp_path sm \<noteq> backup_path sm"
  by (simp_all add: temp_path_def backup_path_def)

lemma copy_to_backup_frame:
  assumes "copy_to_backup sm fs = (r, fs1)"
  shows "read_denied fs1 = read_denied fs \<and> write_denied fs1 = write_denied fs \<and>
         files fs1 (state_path sm) = files fs (state_path sm)"
proof (cases "open_read fs (state_path sm)")
  case (Inl e)
  then show ?thesis using assms by (simp add: copy_to_backup_def)
next
  case (Inr c)
  show ?thesis
  proof (cases "backup_path sm \<in> write_denied fs")
    case True
    then show ?thesis using assms Inr by (simp add: copy_to_backup_def open_write_def)
  next
    case False
    then show ?thesis
      using assms Inr paths_distinct(2) [of sm]
      by (cases "read_text c") (auto simp: copy_to_backup_def open_write_def put_file_def)
  qed
qed

lemma save_state_True:
  assumes "save_state sm fs = (True, fs')"
  shows "\<exists>d. json_dump_doc (asdict (state sm)) = Inr d \<and>
              files fs' (state_path sm) = Some (Doc d) \<and>
              read_denied fs' = read_denied fs"
proof -
  obtain r fs1 where c:
    "(if path_exists fs (state_path sm) then copy_to_backup sm fs else (None, fs)) = (r, fs1)"
    by (cases "if path_exists fs (state_path sm) then copy_to_backup sm fs else (None, fs)") auto
  have f: "read_denied fs1 = read_denied fs"
    using c copy_to_backup_frame [of sm fs r fs1] by (auto split: if_splits)
  have r: "r = None" using assms c by (cases r) (simp_all add: save_state_def)
  have s1: "save_state sm fs =
          (case open_write fs1 (temp_path sm) of
             Inl e \<Rightarrow> (False, fs1)
           | Inr fs2 \<Rightarrow>
               (case json_dump_doc (asdict (state sm)) of
                  Inl e \<Rightarrow> (False, put_file fs2 (temp_path sm) Truncated)
                | Inr doc \<Rightarrow>
                    (case rename_file (put_file fs2 (temp_path sm) (Doc doc))
                            (temp_path sm) (state_path sm) of
                       Inl e \<Rightarrow> (False, put_file fs2 (temp_path sm) (Doc doc))
                     | Inr fs4 \<Rightarrow> (True, fs4))))"
    using c r by (simp add: save_state_def Let_def split: sum.splits)
  obtain fs2 where o: "open_write fs1 (temp_path sm) = Inr fs2"
    using assms s1 by (cases "open_write fs1 (temp_path sm)") simp_all
  obtain d where d: "json_dump_doc (asdict (state sm)) = Inr d"
    using assms s1 o by (cases "json_dump_doc (asdict (state sm))") simp_all
  have n: "rename_file (put_file fs2 (temp_path sm) (Doc d)) (temp_path sm) (state_path sm) = Inr fs'"
    using assms s1 o d
    by (cases "rename_file (put_file fs2 (temp_path sm) (Doc d)) (temp_path sm) (state_path sm)")
       simp_all
  have "files fs' (state_path sm) = Some (Doc d)" and "read_denied fs' = read_denied fs2"
    using n by (auto simp: rename_file_def put_file_def split: if_splits)
  moreover have "read_denied fs2 = read_denied fs1"
    using o by (auto simp: open_write_def put_file_def split: if_splits)
  ultimately show ?thesis using d f by simp
qed

lemma WatcherState_new_startup: "now \<noteq> 0 \<Longrightarrow> startup_time (WatcherState_new now k) \<noteq> 0"
  by (simp add: WatcherState_new_def Let_def)

lemma startup_sm_busy: "startup_time (state sm_busy) \<noteq> 0"
  by (simp add: sm_busy_def sm0_def WatcherState_new_def no_state_kwargs_def)

lemma native_sm_busy: "list_all json_native (error_rate_window (state sm_busy))"
  by (simp add: sm_busy_def request_def)

lemma path_sm_busy: "state_path sm_busy = ''/tmp/watcher_state.json''"
  by (simp add: sm_busy_def sm0_def)

lemma save_fs0:
  "state_path sm = ''/tmp/watcher_state.json'' \<Longrightarrow>
   json_dump_doc (asdict (state sm)) = Inr d \<Longrightarrow>
   save_state sm fs0 = (True, put_file fs0 ''/tmp/watcher_state.json'' (Doc d))"
  by (simp add: save_state_def path_exists_def fs0_def open_write_def put_file_def
        rename_file_def temp_path_def fun_upd_twist)

lemma fs_saved_files:
  assumes "json_dump_doc (asdict (state sm_busy)) = Inr d"
  shows "files fs_saved ''/tmp/watcher_state.json.backup'' = Some (Doc d)"
    and "read_denied fs_saved = {}"
proof -
  have s: "save_state sm_busy fs0 = (True, put_file fs0 ''/tmp/watcher_state.json'' (Doc d))"
    using save_fs0 [OF path_sm_busy assms] .
  show "files fs_saved ''/tmp/watcher_state.json.backup'' = Some (Doc d)"
    and "read_denied fs_saved = {}"
    by (simp_all add: fs_saved_def s save_state_def path_exists_def copy_to_backup_def
          open_read_def open_write_def put_file_def rename_file_def fs0_def temp_path_def
          backup_path_def path_sm_busy assms)
qed

lemma sm0_init: "sm0 = StateManager_init ''/tmp/watcher_state.json'' 100"
  by (simp add: sm0_def StateManager_init_def)

text \<open>
  Claim C8 as stated fails: a state is not always read back as it was saved. The window
  of \<open>sm_tuple\<close> holds the entry \<open>{'t': (1, 2)}\<close>. \<open>save_state\<close> succeeds on the empty
  directory, and \<open>load_state\<close> on the files it leaves gives the window entry
  \<open>{'t': [1, 2]}\<close>: JSON has no tuples, the tuple is written as an array and read as a
  list.
\<close>

theorem save_load_tuple_counterexample:
  "fst (save_state sm_tuple fs0) = True \<and>
   error_rate_window (state sm_tuple) = [PDict [(KStr ''t'', PTuple [PInt 1, PInt 2])]] \<and>
   fst (load_state 500 sm0 (snd (save_state sm_tuple fs0))) = True \<and>
   error_rate_window (state (snd (load_state 500 sm0 (snd (save_state sm_tuple fs0))))) =
     [PDict [(KStr ''t'', PList [PInt 1, PInt 2])]]"
proof -
  have w: "error_rate_window (state sm_tuple) = [PDict [(KStr ''t'', PTuple [PInt 1, PInt 2])]]"
    by (simp add: sm_tuple_def)
  have q: "sequence (map json_dump (error_rate_window (state sm_tuple))) =
             Inr [JObject [(''t'', JArray [JInt 1, JInt 2])]]"
    by (simp add: w dump_item_def)
  obtain d where d: "json_dump_doc (asdict (state sm_tuple)) = Inr d"
    using q by (simp add: json_dump_doc_def asdict_def)
  have p: "state_path sm_tuple = ''/tmp/watcher_state.json''"
    by (simp add: sm_tuple_def sm0_def)
  have s: "save_state sm_tuple fs0 = (True, put_file fs0 ''/tmp/watcher_state.json'' (Doc d))"
    using save_fs0 [OF p d] .
  have "stored_doc (put_file fs0 ''/tmp/watcher_state.json'' (Doc d)) (state_path sm0) = Some d"
    by (simp add: stored_doc_def put_file_def fs0_def sm0_def)
  then have l: "load_state 500 sm0 (snd (save_state sm_tuple fs0)) =
                  (True, sm0\<lparr>state := from_doc 500 d\<rparr>)"
    by (simp add: s load_state_cases)
  obtain js where js: "sequence (map json_dump (error_rate_window (state sm_tuple))) = Inr js"
    and f: "from_doc 500 d =
              (state sm_tuple)\<lparr>error_rate_window := map json_load js,
                startup_time := (if startup_time (state sm_tuple) = 0 then 500
                                 else startup_time (state sm_tuple))\<rparr>"
    using from_doc_dump [OF d, of 500] by blast
  have "js = [JObject [(''t'', JArray [JInt 1, JInt 2])]]" using js q by simp
  then have "error_rate_window (from_doc 500 d) = [PDict [(KStr ''t'', PList [PInt 1, PInt 2])]]"
    using f by (simp add: dict_of_def)
  then show ?thesis using w s l by simp
qed

text \<open>
  Claim C8, amended. Let \<open>save_state\<close> succeed (it returns \<open>True\<close>), and let the
  primary file be readable. Then every entry of the window was written without an
  exception, and \<open>load_state\<close>, by any state manager on the same path, returns \<open>True\<close>
  with the saved state in which each window entry is the value that \<open>json.load\<close> reads
  back for it, and in which a start-up time of 0 has been replaced by the clock. So when
  the start-up time is not 0 (as \<open>__post_init__\<close> leaves it in every state that a
  constructor builds, \<open>WatcherState_new_startup\<close>) and the window entries are values that
  JSON has a form for, the state loaded is exactly the state saved: every field, the
  breaker map with every entry, the alert map and the window.
\<close>

theorem save_load_roundtrip:
  assumes "save_state sm fs = (True, fs')"
    and "state_path sm \<notin> read_denied fs"
    and "state_path sm' = state_path sm"
  shows "\<exists>js. sequence (map json_dump (error_rate_window (state sm))) = Inr js \<and>
           load_state now sm' fs' =
             (True, sm'\<lparr>state := (state sm)
                \<lparr>error_rate_window := map json_load js,
                 startup_time := (if startup_time (state sm) = 0 then now
                                  else startup_time (state sm))\<rparr>\<rparr>) \<and>
           (startup_time (state sm) \<noteq> 0 \<and> list_all json_native (error_rate_window (state sm))
              \<longrightarrow> load_state now sm' fs' = (True, sm'\<lparr>state := state sm\<rparr>))"
proof -
  obtain d where d: "json_dump_doc (asdict (state sm)) = Inr d"
    and f: "files fs' (state_path sm) = Some (Doc d)" and r: "read_denied fs' = read_denied fs"
    using save_state_True [OF assms(1)] by blast
  have "stored_doc fs' (state_path sm') = Some d"
    using f r assms(2,3) by (simp add: stored_doc_def)
  then have l: "load_state now sm' fs' = (True, sm'\<lparr>state := from_doc now d\<rparr>)"
    by (simp add: load_state_cases)
  obtain js where js: "sequence (map json_dump (error_rate_window (state sm))) = Inr js"
    and e: "from_doc now d =
              (state sm)\<lparr>error_rate_window := map json_load js,
                startup_time := (if startup_time (state sm) = 0 then now
                                 else startup_time (state sm))\<rparr>"
    using from_doc_dump [OF d, of now] by blast
  have "startup_time (state sm) \<noteq> 0 \<Longrightarrow> list_all json_native (error_rate_window (state sm)) \<Longrightarrow>
        from_doc now d = state sm"
    using e window_roundtrip [OF _ js] by simp
  then show ?thesis using js l e by auto
qed

theorem save_load_roundtrip_witness:
  "fst (save_state sm_busy fs0) = True \<and>
   state_path sm_busy \<notin> read_denied fs0 \<and>
   state_path sm0 = state_path sm_busy \<and>
   startup_time (state sm_busy) \<noteq> 0 \<and>
   list_all json_native (error_rate_window (state sm_busy)) \<and>
   load_state 500 sm0 (snd (save_state sm_busy fs0)) = (True, sm0\<lparr>state := state sm_busy\<rparr>)"
proof -
  obtain d where d: "json_dump_doc (asdict (state sm_busy)) = Inr d"
    using json_doc_native [OF native_sm_busy] by blast
  have t: "fst (save_state sm_busy fs0) = True"
    using save_fs0 [OF path_sm_busy d] by simp
  then have e: "save_state sm_busy fs0 = (True, snd (save_state sm_busy fs0))"
    by (metis prod.collapse)
  have r: "state_path sm_busy \<notin> read_denied fs0" by (simp add: fs0_def)
  have p: "state_path sm0 = state_path sm_busy" by (simp add: sm_busy_def)
  have "load_state 500 sm0 (snd (save_state sm_busy fs0)) = (True, sm0\<lparr>state := state sm_busy\<rparr>)"
    using save_load_roundtrip [OF e r p, of 500] startup_sm_busy native_sm_busy
    by blast
  then show ?thesis using t r p startup_sm_busy native_sm_busy by simp
qed

text \<open>
  Claim C7. \<open>load_state\<close> is called by the constructor on the manager that holds the
  default state it has just built (\<open>StateManager_init\<close>). There it is \<open>load_spec\<close>: the
  primary path first, then the backup, the first usable document becoming the state, and
  no exception leaves the call. When the primary file holds a document, the state is
  built from it. When the primary file is missing, unreadable or corrupt and the backup
  holds a document, the state is built from the backup; if that document is what
  \<open>save_state\<close> wrote for a state \<open>s0\<close> (with window entries that JSON has a form for
  and the start-up time that \<open>__post_init__\<close> gives), the state loaded is \<open>s0\<close>
  exactly. When neither file is usable, the result is \<open>False\<close> and the state is the
  fresh default state.
\<close>

theorem load_state_fallback:
  assumes "sm = StateManager_init path t0"
  shows "load_state now sm fs = load_spec t0 now sm fs \<and>
   (stored_doc fs path = Some d \<longrightarrow>
      load_state now sm fs = (True, \<lparr>state_path = path, state = from_doc now d\<rparr>)) \<and>
   (stored_doc fs path = None \<and> stored_doc fs (path @ ''.backup'') = Some d \<longrightarrow>
      load_state now sm fs = (True, \<lparr>state_path = path, state = from_doc now d\<rparr>) \<and>
      (json_dump_doc (asdict s0) = Inr d \<and> list_all json_native (error_rate_window s0) \<and>
       startup_time s0 \<noteq> 0 \<longrightarrow>
         StateManager_new path t0 now fs = \<lparr>state_path = path, state = s0\<rparr>)) \<and>
   (stored_doc fs path = None \<and> stored_doc fs (path @ ''.backup'') = None \<longrightarrow>
      load_state now sm fs = (False, sm) \<and>
      StateManager_new path t0 now fs =
        \<lparr>state_path = path, state = WatcherState_new t0 no_state_kwargs\<rparr>)"
proof -
  have s: "sm\<lparr>state := x\<rparr> = \<lparr>state_path = path, state = x\<rparr>" for x
    using assms by (simp add: StateManager_init_def)
  have p: "state_path sm = path" "backup_path sm = path @ ''.backup''"
    using assms by (simp_all add: StateManager_init_def backup_path_def)
  have a: "load_state now sm fs = load_spec t0 now sm fs"
    using assms
    by (simp add: load_state_cases load_spec_def StateManager_init_def split: option.splits)
  have b: "stored_doc fs path = Some d \<Longrightarrow>
           load_state now sm fs = (True, \<lparr>state_path = path, state = from_doc now d\<rparr>)"
    by (simp add: load_state_cases p s)
  have c: "stored_doc fs path = None \<Longrightarrow> stored_doc fs (path @ ''.backup'') = Some d \<Longrightarrow>
           load_state now sm fs = (True, \<lparr>state_path = path, state = from_doc now d\<rparr>)"
    by (simp add: load_state_cases p s)
  have e: "json_dump_doc (asdict s0) = Inr d \<Longrightarrow> list_all json_native (error_rate_window s0) \<Longrightarrow>
           startup_time s0 \<noteq> 0 \<Longrightarrow> from_doc now d = s0"
  proof -
    assume d: "json_dump_doc (asdict s0) = Inr d"
      and n: "list_all json_native (error_rate_window s0)" and t: "startup_time s0 \<noteq> 0"
    obtain js where js: "sequence (map json_dump (error_rate_window s0)) = Inr js"
      and f: "from_doc now d =
                s0\<lparr>error_rate_window := map json_load js,
                   startup_time := (if startup_time s0 = 0 then now else startup_time s0)\<rparr>"
      using from_doc_dump [OF d, of now] by blast
    show "from_doc now d = s0" using f t window_roundtrip [OF n js] by simp
  qed
  have n: "StateManager_new path t0 now fs = snd (load_state now sm fs)"
    using assms by (simp add: StateManager_new_def)
  have f: "stored_doc fs path = None \<Longrightarrow> stored_doc fs (path @ ''.backup'') = None \<Longrightarrow>
           load_state now sm fs = (False, sm)"
    by (simp add: load_state_cases p)
  have g: "sm = \<lparr>state_path = path, state = WatcherState_new t0 no_state_kwargs\<rparr>"
    using assms by (simp add: StateManager_init_def)
  have h: "stored_doc fs path = None \<Longrightarrow> stored_doc fs (path @ ''.backup'') = Some d \<Longrightarrow>
           json_dump_doc (asdict s0) = Inr d \<Longrightarrow> list_all json_native (error_rate_window s0) \<Longrightarrow>
           startup_time s0 \<noteq> 0 \<Longrightarrow>
           StateManager_new path t0 now fs = \<lparr>state_path = path, state = s0\<rparr>"
    using c e n by simp
  have i: "stored_doc fs path = None \<Longrightarrow> stored_doc fs (path @ ''.backup'') = None \<Longrightarrow>
           StateManager_new path t0 now fs =
             \<lparr>state_path = path, state = WatcherState_new t0 no_state_kwargs\<rparr>"
    using f n g by simp
  show ?thesis using a b c h f i by simp
qed

theorem load_state_fallback_witness:
  "stored_doc fs_backup_only ''/tmp/watcher_state.json'' = None \<and>
   StateManager_new ''/tmp/watcher_state.json'' 100 500 fs_backup_only =
     \<lparr>state_path = ''/tmp/watcher_state.json'', state = state sm_busy\<rparr> \<and>
   stored_doc fs0 ''/tmp/watcher_state.json'' = None \<and>
   stored_doc fs0 (''/tmp/watcher_state.json'' @ ''.backup'') = None \<and>
   load_state 500 sm0 fs0 = (False, sm0) \<and>
   StateManager_new ''/tmp/watcher_state.json'' 100 500 fs0 = sm0"
proof -
  let ?p = "''/tmp/watcher_state.json''"
  obtain d where d: "json_dump_doc (asdict (state sm_busy)) = Inr d"
    using json_doc_native [OF native_sm_busy] by blast
  have a: "stored_doc fs_backup_only ?p = None"
    by (simp add: stored_doc_def fs_backup_only_def put_file_def)
  have b: "stored_doc fs_backup_only (?p @ ''.backup'') = Some d"
    using fs_saved_files [OF d] by (simp add: stored_doc_def fs_backup_only_def put_file_def)
  have c: "stored_doc fs0 ?p = None" "stored_doc fs0 (?p @ ''.backup'') = None"
    by (simp_all add: stored_doc_def fs0_def)
  have w1: "StateManager_new ?p 100 500 fs_backup_only = \<lparr>state_path = ?p, state = state sm_busy\<rparr>"
    using load_state_fallback [OF sm0_init, of 500 fs_backup_only d "state sm_busy"]
          a b d native_sm_busy startup_sm_busy
    by blast
  have w2: "load_state 500 sm0 fs0 = (False, sm0) \<and>
            StateManager_new ?p 100 500 fs0 =
              \<lparr>state_path = ?p, state = WatcherState_new 100 no_state_kwargs\<rparr>"
    using load_state_fallback [OF sm0_init, of 500 fs0 d "state sm_busy"] c
    by blast
  have w3: "StateManager_new ?p 100 500 fs0 = sm0"
    using w2 by (simp add: sm0_def)
  show ?thesis using a c w1 w2 w3 by blast
qed

section \<open>Opening the log file\<close>

lemma record_success_position:
  "record_success eh fs c now = (eh', fs') \<Longrightarrow>
   file_position (state (state_manager eh')) = file_position (state (state_manager eh)) \<and>
   file_inode (state (state_manager eh')) = file_inode (state (state_manager eh))"
  by (auto simp: record_success_def Let_def get_circuit_breaker_def update_circuit_breaker_def
        set_cb_def split: prod.splits if_splits option.splits)

lemma lfm_closed_saved:
  "file_position (lfm_state lfm_closed) = 42" "file_inode (lfm_state lfm_closed) = Some 7"
  by (simp_all add: lfm_closed_def lfm_state_def sm_busy_def)

text \<open>
  Claim C1. Let no file be open, the path exist, \<open>open\<close> and \<open>os.stat\<close> succeed on a
  stream that can be positioned, and let the persisted position be a byte offset (not
  negative, as every position the program stores is). Then \<open>_ensure_file_open\<close> returns
  \<open>True\<close>, and: if the persisted inode is the file's inode and the persisted position is
  at most the size, the handle is at the persisted position, which is also the in-memory
  offset; in every other case (another inode, no inode, a position beyond the size) the
  handle and the offset are at the end of the file. The offset and the inode are handed
  to the state manager.
\<close>

theorem ensure_file_open_seek:
  assumes "current_file m = None" and "current_path m = Some path"
    and "log_exists env" and "log_open env = None" and "log_seekable env"
    and "log_stat env = Inr (ino, sz)"
    and "0 \<le> file_position (lfm_state m)"
    and "ensure_file_open m fs env now = (r, m', fs')"
  shows "r = Inr True \<and> current_inode m' = Some ino \<and>
     (if file_inode (lfm_state m) = Some ino \<and> file_position (lfm_state m) \<le> sz
      then current_file m' = Some \<lparr>h_pos = file_position (lfm_state m), h_seekable = True\<rparr> \<and>
           last_position m' = file_position (lfm_state m)
      else current_file m' = Some \<lparr>h_pos = log_end env, h_seekable = True\<rparr> \<and>
           last_position m' = log_end env) \<and>
     file_position (lfm_state m') = last_position m' \<and>
     file_inode (lfm_state m') = Some ino"
proof (cases "file_inode (lfm_state m) = Some ino \<and> file_position (lfm_state m) \<le> sz")
  case True
  then show ?thesis
    using assms
    by (auto simp: ensure_file_open_def Let_def seek_def seek_end_def tell_def lfm_state_def
          lfm_update_file_position_def update_file_position_def
          split: prod.splits dest!: record_success_position)
next
  case False
  then show ?thesis
    using assms
    by (auto simp: ensure_file_open_def Let_def seek_def seek_end_def tell_def lfm_state_def
          lfm_update_file_position_def update_file_position_def
          split: prod.splits dest!: record_success_position)
qed

theorem ensure_file_open_seek_witness:
  "file_position (lfm_state lfm_closed) = 42 \<and> file_inode (lfm_state lfm_closed) = Some 7 \<and>
   fst (ensure_file_open lfm_closed fs0 (env_ok 7 100) 300) = Inr True \<and>
   current_file (fst (snd (ensure_file_open lfm_closed fs0 (env_ok 7 100) 300))) =
     Some \<lparr>h_pos = 42, h_seekable = True\<rparr> \<and>
   last_position (fst (snd (ensure_file_open lfm_closed fs0 (env_ok 7 100) 300))) = 42 \<and>
   current_file (fst (snd (ensure_file_open lfm_closed fs0 (env_ok 8 100) 300))) =
     Some \<lparr>h_pos = 100, h_seekable = True\<rparr> \<and>
   last_position (fst (snd (ensure_file_open lfm_closed fs0 (env_ok 8 100) 300))) = 100 \<and>
   current_file (fst (snd (ensure_file_open lfm_closed fs0 (env_ok 7 30) 300))) =
     Some \<lparr>h_pos = 30, h_seekable = True\<rparr>"
proof -
  have c: "current_file lfm_closed = None"
    and p: "current_path lfm_closed = Some ''/var/log/nginx/access.log''"
    and n: "0 \<le> file_position (lfm_state lfm_closed)"
    by (simp_all add: lfm_closed_def lfm_state_def sm_busy_def)
  have e: "log_exists (env_ok i s)" "log_open (env_ok i s) = None" "log_seekable (env_ok i s)"
    "log_stat (env_ok i s) = Inr (i, s)" "log_end (env_ok i s) = s" for i s
    by (simp_all add: env_ok_def)
  obtain r1 m1 f1 where h1: "ensure_file_open lfm_closed fs0 (env_ok 7 100) 300 = (r1, m1, f1)"
    by (cases "ensure_file_open lfm_closed fs0 (env_ok 7 100) 300") auto
  obtain r2 m2 f2 where h2: "ensure_file_open lfm_closed fs0 (env_ok 8 100) 300 = (r2, m2, f2)"
    by (cases "ensure_file_open lfm_closed fs0 (env_ok 8 100) 300") auto
  obtain r3 m3 f3 where h3: "ensure_file_open lfm_closed fs0 (env_ok 7 30) 300 = (r3, m3, f3)"
    by (cases "ensure_file_open lfm_closed fs0 (env_ok 7 30) 300") auto
  show ?thesis
    using ensure_file_open_seek [OF c p e(1) e(2) e(3) e(4) n h1]
          ensure_file_open_seek [OF c p e(1) e(2) e(3) e(4) n h2]
          ensure_file_open_seek [OF c p e(1) e(2) e(3) e(4) n h3]
          h1 h2 h3
    by (simp add: lfm_closed_saved e(5))
qed

section \<open>Detecting a rotation\<close>

text \<open>
  The inode of the open file. \<open>current_inode\<close> is assigned in one place, by
  \<open>_ensure_file_open\<close> from \<open>os.stat\<close> right after \<open>open\<close>, and reset together with the
  handle by \<open>_close_file\<close>: when \<open>_ensure_file_open\<close> has opened the file, the handle is
  there and the recorded inode is the one that \<open>os.stat\<close> gave.
\<close>

lemma ensure_file_open_records_inode:
  assumes "current_file m = None"
    and "ensure_file_open m fs env now = (Inr True, m', fs')"
  shows "\<exists>h ino sz. current_file m' = Some h \<and> log_stat env = Inr (ino, sz) \<and>
                    current_inode m' = Some ino"
  using assms
  by (auto simp: ensure_file_open_def Let_def lfm_update_file_position_def
        split: option.splits if_splits sum.splits prod.splits)

text \<open>
  Claim C6. Let the manager have a file open, with the read offset \<open>pos\<close> that
  \<open>tell()\<close> reports and with the inode \<open>i\<close> recorded when it was opened, an inode
  number other than 0 (the guard \<open>if self.current_inode and ...\<close> is Python's truth
  test). Then \<open>detect_rotation\<close> returns \<open>True\<close> when the path no longer exists; when
  \<open>os.stat\<close> fails; when the inode of the fresh stat differs from \<open>i\<close>; and when the
  size is smaller than \<open>pos\<close> minus the slack of 1000. It returns \<open>False\<close> when the
  inode is unchanged and the size is at least \<open>pos\<close>.
\<close>

theorem detect_rotation_cases:
  assumes "current_path m = Some p" and "p \<noteq> []"
    and "current_file m = Some h" and "tell h = Inr pos"
    and "current_inode m = Some i" and "i \<noteq> 0"
  shows "(\<not> log_exists env \<longrightarrow> detect_rotation m env = Inr True) \<and>
   (log_exists env \<and> log_stat env = Inl (OSError msg) \<longrightarrow> detect_rotation m env = Inr True) \<and>
   (log_exists env \<and> log_stat env = Inr (ino, sz) \<and> ino \<noteq> i \<longrightarrow>
      detect_rotation m env = Inr True) \<and>
   (log_exists env \<and> log_stat env = Inr (ino, sz) \<and> sz < pos - 1000 \<longrightarrow>
      detect_rotation m env = Inr True) \<and>
   (log_exists env \<and> log_stat env = Inr (i, sz) \<and> pos \<le> sz \<longrightarrow>
      detect_rotation m env = Inr False)"
  using assms by (auto simp: detect_rotation_def)

theorem detect_rotation_cases_witness:
  "detect_rotation (lfm_at 7 100) ((env_ok 7 100)\<lparr>log_exists := False\<rparr>) = Inr True \<and>
   detect_rotation (lfm_at 7 100)
     ((env_ok 7 100)\<lparr>log_stat := Inl (OSError ''Input/output error'')\<rparr>) = Inr True \<and>
   detect_rotation (lfm_at 7 100) (env_ok 8 500) = Inr True \<and>
   detect_rotation (lfm_at 7 5000) (env_ok 7 100) = Inr True \<and>
   detect_rotation (lfm_at 7 100) (env_ok 7 100) = Inr False \<and>
   detect_rotation (lfm_at 7 100) (env_ok 7 5000) = Inr False"
proof -
  have m: "current_path (lfm_at 7 q) = Some ''/var/log/nginx/access.log''"
    "current_file (lfm_at 7 q) = Some \<lparr>h_pos = q, h_seekable = True\<rparr>"
    "tell \<lparr>h_pos = q, h_seekable = True\<rparr> = Inr q"
    "current_inode (lfm_at 7 q) = Some 7" for q
    by (simp_all add: lfm_at_def lfm0_def tell_def)
  have c: "''/var/log/nginx/access.log'' \<noteq> []" "(7::int) \<noteq> 0"
    by simp_all
  note at100 = detect_rotation_cases [OF m(1) [of 100] c(1) m(2) [of 100] m(3) [of 100]
                                         m(4) [of 100] c(2)]
  note at5000 = detect_rotation_cases [OF m(1) [of 5000] c(1) m(2) [of 5000] m(3) [of 5000]
                                          m(4) [of 5000] c(2)]
  have w1: "detect_rotation (lfm_at 7 100) ((env_ok 7 100)\<lparr>log_exists := False\<rparr>) = Inr True"
    using at100 [where env = "(env_ok 7 100)\<lparr>log_exists := False\<rparr>"]
    by (simp add: env_ok_def)
  have w2: "detect_rotation (lfm_at 7 100)
              ((env_ok 7 100)\<lparr>log_stat := Inl (OSError ''Input/output error'')\<rparr>) = Inr True"
    using at100 [where env = "(env_ok 7 100)\<lparr>log_stat := Inl (OSError ''Input/output error'')\<rparr>"
                   and msg = "''Input/output error''"]
    by (simp add: env_ok_def)
  have w3: "detect_rotation (lfm_at 7 100) (env_ok 8 500) = Inr True"
    using at100 [where env = "env_ok 8 500" and ino = 8 and sz = 500]
    by (simp add: env_ok_def)
  have w4: "detect_rotation (lfm_at 7 5000) (env_ok 7 100) = Inr True"
    using at5000 [where env = "env_ok 7 100" and ino = 7 and sz = 100]
    by (simp add: env_ok_def)
  have w5: "detect_rotation (lfm_at 7 100) (env_ok 7 100) = Inr False"
    using at100 [where env = "env_ok 7 100" and ino = 7 and sz = 100]
    by (simp add: env_ok_def)
  have w6: "detect_rotation (lfm_at 7 100) (env_ok 7 5000) = Inr False"
    using at100 [where env = "env_ok 7 5000" and ino = 7 and sz = 5000]
    by (simp add: env_ok_def)
  show ?thesis using w1 w2 w3 w4 w5 w6 by blast
qed

section \<open>Checkpoints while reading\<close>

lemma l50: "length line50 = 50" "line50 \<noteq> []"
  by (simp_all add: line50_def)

lemma l2: "length line2 = 2" "line2 \<noteq> []"
  by (simp_all add: line2_def)

lemmas read_eval = read_lines_def tell_def Let_def lfm_update_file_position_def
        update_file_position_def lfm_state_def split_def

text \<open>
  Claim C10, and the comment in the code (``every 50 lines''), ask for a checkpoint once
  every N lines. The code tests \<open>self.last_position % 50 == 0\<close>, the byte value of the
  offset. Reading lines of 50 bytes from offset 0, the persisted position is 50 after one
  line, 100 after two, 150 after three: a checkpoint on every line. Reading 60 lines of 2
  bytes from offset 1, every offset is odd and the persisted position never moves from 0,
  while the in-memory offset has reached 121.
\<close>

theorem read_lines_checkpoint_by_offset:
  "file_position (lfm_state lfm0) = 0 \<and>
   file_position (lfm_state (snd (snd (read_lines lfm0 [Line line50])))) = 50 \<and>
   file_position (lfm_state (snd (snd (read_lines lfm0 [Line line50, Line line50])))) = 100 \<and>
   file_position (lfm_state (snd (snd (read_lines lfm0 [Line line50, Line line50, Line line50])))) = 150 \<and>
   file_position (lfm_state lfm_odd) = 0 \<and>
   length (fst (read_lines lfm_odd (replicate 60 (Line line2)))) = 60 \<and>
   last_position (snd (snd (read_lines lfm_odd (replicate 60 (Line line2))))) = 121 \<and>
   file_position (lfm_state (snd (snd (read_lines lfm_odd (replicate 60 (Line line2)))))) = 0"
  by (simp add: read_eval lfm0_def lfm_odd_def l50 l2 eval_nat_numeral eh0_def sm0_def
        WatcherState_new_def no_state_kwargs_def)

end
